theory Spec2Isabelle
  imports Main "HOL-Library.Word" "HOL-Library.Sublist"
begin

section \<open>The \<open>ipsw idev img sign\<close> command (\<open>cmd/ipsw/cmd/idev/idev_img_sign.go\<close>)\<close>

text \<open>
  The command personalizes a Developer Disk Image: it validates its flags, optionally
  mounts \<open>iOS_DDI.dmg\<close> out of an Xcode installation, reads and parses a build manifest,
  asks the signing service for a signature and writes it to a file. The embedding keeps
  the control flow of \<open>RunE\<close> line by line. Every call that leaves the function
  (filesystem, mount service, manifest parser, signing service, logger, sleeping) is
  recorded, in order, in a trace of events, and its result is read from a record of
  collaborators, so that a property of \<open>RunE\<close> holds for every behaviour of them.
  Lines 73-76 only set the logger's level and the colour switch of the process; they do
  not leave the process and are not part of the trace.
\<close>

subsection \<open>Go values: byte slices, errors, durations\<close>

type_synonym bytes = "8 word list"

text \<open>
  A Go \<open>error\<close>. \<open>ErrNotExist\<close> is \<open>os.ErrNotExist\<close>; \<open>ErrorString\<close> is an error that
  only carries a message (\<open>fmt.Errorf\<close> without \<open>%w\<close>, \<open>errors.New\<close>); \<open>WrapError msg err\<close>
  is what \<open>fmt.Errorf\<close> builds for a format with \<open>%w\<close>: the formatted message and the
  wrapped error.
\<close>

datatype error = ErrNotExist | ErrorString string | WrapError string error

text \<open>The method \<open>Error()\<close>: the message of an error.\<close>

primrec Error :: "error \<Rightarrow> string" where
  "Error ErrNotExist = ''file does not exist''"
| "Error (ErrorString s) = s"
| "Error (WrapError s err) = s"

text \<open>\<open>errors.Is(err, os.ErrNotExist)\<close> for a non-nil \<open>err\<close>: follows the chain of wrapped errors.\<close>

primrec Is_ErrNotExist :: "error \<Rightarrow> bool" where
  "Is_ErrNotExist ErrNotExist = True"
| "Is_ErrNotExist (ErrorString s) = False"
| "Is_ErrNotExist (WrapError s err) = Is_ErrNotExist err"

text \<open>\<open>errors.Is(err, os.ErrNotExist)\<close> for the \<open>err\<close> a call returned (\<open>None\<close> is \<open>nil\<close>).\<close>

definition errors_Is_ErrNotExist :: "error option \<Rightarrow> bool" where
  "errors_Is_ErrNotExist r = (case r of None \<Rightarrow> False | Some err \<Rightarrow> Is_ErrNotExist err)"

text \<open>
  \<open>fs.PathError{Op, Path, Err}\<close>, the error of a failed file operation of package \<open>os\<close>:
  its message is \<open>Op + " " + Path + ": " + Err.Error()\<close> and it unwraps to \<open>Err\<close>.
\<close>

definition PathError :: "string \<Rightarrow> string \<Rightarrow> error \<Rightarrow> error" where
  "PathError op path err = WrapError (op @ '' '' @ path @ '': '' @ Error err) err"

text \<open>\<open>time.Duration\<close> counts nanoseconds in an \<open>int64\<close>; \<open>time.Second\<close> is \<open>10^9\<close> of them.\<close>

type_synonym Duration = int

definition Second :: Duration where
  "Second = 1000000000"

text \<open>The file modes of lines 146 and 153, written in octal in the source.\<close>

definition mode_0750 :: nat where
  "mode_0750 = 7 * 64 + 5 * 8 + 0"

definition mode_0644 :: nat where
  "mode_0644 = 6 * 64 + 4 * 8 + 4"

subsection \<open>\<open>%d\<close> of an unsigned 64-bit integer\<close>

text \<open>
  \<open>fmt.Sprintf\<close> renders a \<open>uint64\<close> under \<open>%d\<close> in base ten, least significant digit
  first into a buffer filled from the right: while the value is at least ten, the digit
  \<open>u - (u / 10) * 10\<close> is stored and \<open>u\<close> becomes \<open>u / 10\<close>; the last digit closes the loop.
\<close>

definition digit_char :: "nat \<Rightarrow> char" where
  "digit_char d = ''0123456789'' ! d"

fun fmt_d_nat :: "nat \<Rightarrow> string" where
  "fmt_d_nat u =
     (if u < 10 then [digit_char u]
      else fmt_d_nat (u div 10) @ [digit_char (u mod 10)])"

declare fmt_d_nat.simps [simp del]

definition fmt_d :: "64 word \<Rightarrow> string" where
  "fmt_d u = fmt_d_nat (unat u)"

text \<open>Reading a string of decimal digits back, to say what a decimal rendering is.\<close>

definition is_digit :: "char \<Rightarrow> bool" where
  "is_digit c = (c \<in> set ''0123456789'')"

definition digit_val :: "char \<Rightarrow> nat" where
  "digit_val c = of_char c - 48"

definition decimal_value :: "string \<Rightarrow> nat" where
  "decimal_value s = foldl (\<lambda>acc c. 10 * acc + digit_val c) 0 s"

subsection \<open>The flags and the request\<close>

text \<open>The values \<open>RunE\<close> reads from viper at lines 79-85, 130 and 131.\<close>

record flags =
  xcode :: string
  manifestPath :: string
  boardID :: "64 word"
  chipID :: "64 word"
  ecid :: "64 word"
  nonce :: string
  "output" :: string
  proxy :: string
  insecure :: bool

text \<open>
  The command line: each flag registered by \<open>init\<close> is either absent (\<open>None\<close>) or given
  with a value. A flag that is absent has the default \<open>init\<close> registers for it (lines
  43-51); no configuration file or environment variable overrides a flag here.
\<close>

record cmdline =
  arg_xcode :: "string option"
  arg_manifest :: "string option"
  arg_board_id :: "64 word option"
  arg_chip_id :: "64 word option"
  arg_ecid :: "64 word option"
  arg_nonce :: "string option"
  arg_proxy :: "string option"
  arg_insecure :: "bool option"
  arg_output :: "string option"

definition flag_value :: "'a \<Rightarrow> 'a option \<Rightarrow> 'a" where
  "flag_value dflt given = (case given of None \<Rightarrow> dflt | Some v \<Rightarrow> v)"

definition init :: "cmdline \<Rightarrow> flags" where
  "init a =
     \<lparr> xcode = flag_value ''/Applications/Xcode.app'' (arg_xcode a),
       manifestPath = flag_value '''' (arg_manifest a),
       boardID = flag_value 0 (arg_board_id a),
       chipID = flag_value 0 (arg_chip_id a),
       ecid = flag_value 0 (arg_ecid a),
       nonce = flag_value '''' (arg_nonce a),
       output = flag_value '''' (arg_output a),
       proxy = flag_value '''' (arg_proxy a),
       insecure = flag_value False (arg_insecure a) \<rparr>"

text \<open>A value of Go's \<open>any\<close>, as far as the request uses it.\<close>

datatype any = Uint64 "64 word" | String string

text \<open>
  \<open>tss.PersonalConfig\<close> with the fields the command sets. The build manifest is opaque:
  the command only moves it from the parser to the signing service.
\<close>

record 'm PersonalConfig =
  Proxy :: string
  Insecure :: bool
  PersonlID :: "string \<rightharpoonup> any"
  BuildManifest :: 'm
  Nonce :: string

text \<open>The struct literal of lines 129-139.\<close>

definition personal_config :: "flags \<Rightarrow> 'm \<Rightarrow> 'm PersonalConfig" where
  "personal_config f buildManifest =
     \<lparr> Proxy = proxy f,
       Insecure = insecure f,
       PersonlID = [''BoardId'' \<mapsto> Uint64 (boardID f),
                    ''ChipID'' \<mapsto> Uint64 (chipID f),
                    ''UniqueChipID'' \<mapsto> Uint64 (ecid f)],
       BuildManifest = buildManifest,
       Nonce = nonce f \<rparr>"

subsection \<open>Collaborators and the trace of their calls\<close>

datatype level = DebugLevel | InfoLevel | ErrorLevel

text \<open>
  One event per call that leaves \<open>RunE\<close>, with the arguments of the call.
  \<open>ELogIndent l n s\<close> is \<open>utils.Indent(log.l, n)(s)\<close>, \<open>ELog l s\<close> a direct call of the logger.
\<close>

datatype 'm event =
    EStat string
  | EMountDMG string
  | EUnmount string bool
  | ESleep Duration
  | EReadFile string
  | EParseBuildManifest bytes
  | EPersonalize "'m PersonalConfig"
  | EMkdirAll string nat
  | EWriteFile string bytes nat
  | ELogIndent level nat string
  | ELog level string

text \<open>
  What the collaborators answer. \<open>filepath.Join\<close>, \<open>os.Stat\<close>, \<open>os.ReadFile\<close>,
  \<open>os.MkdirAll\<close> and \<open>os.WriteFile\<close> are Go's standard library; \<open>utils.MountDMG\<close>,
  \<open>utils.Unmount\<close>, \<open>plist.ParseBuildManifest\<close> and \<open>tss.Personalize\<close> are packages whose
  code is outside this file. Each is a parameter of the model: \<open>Inl\<close> or \<open>Some\<close> carries the
  error of a call that fails. \<open>utils.Unmount\<close> may be called several times with the same
  arguments, so its answer also depends on how many calls came before.
\<close>

record 'm world =
  filepath_Join :: "string \<Rightarrow> string \<Rightarrow> string"
  os_Stat :: "string \<Rightarrow> error option"
  utils_MountDMG :: "string \<Rightarrow> error + string \<times> bool"
  utils_Unmount :: "nat \<Rightarrow> string \<Rightarrow> bool \<Rightarrow> error option"
  os_ReadFile :: "string \<Rightarrow> error + bytes"
  plist_ParseBuildManifest :: "bytes \<Rightarrow> error + 'm"
  tss_Personalize :: "'m PersonalConfig \<Rightarrow> error + bytes"
  os_MkdirAll :: "string \<Rightarrow> nat \<Rightarrow> error option"
  os_WriteFile :: "string \<Rightarrow> bytes \<Rightarrow> nat \<Rightarrow> error option"

text \<open>A run: the error returned (\<open>None\<close> is \<open>nil\<close>) and the calls made before returning.\<close>

type_synonym 'm run = "error option \<times> 'm event list"

text \<open>\<open>after es r\<close>: the calls \<open>es\<close> were made, then the rest of the function ran as \<open>r\<close>.\<close>

definition after :: "'m event list \<Rightarrow> 'm run \<Rightarrow> 'm run" where
  "after es r = (fst r, es @ snd r)"

text \<open>
  Go's \<open>defer\<close> for a closure that does not touch the result: the rest of the function
  runs as \<open>r\<close>, and whatever it returns, the deferred calls \<open>d\<close> are made after it and before
  the function hands its result to the caller.
\<close>

definition with_defer :: "'m event list \<Rightarrow> 'm run \<Rightarrow> 'm run" where
  "with_defer d r = (fst r, snd r @ d)"

subsection \<open>\<open>utils.Retry\<close>\<close>

text \<open>
  Modelled from the spec: \<open>utils.Retry\<close> (package \<open>internal/utils\<close>) is called at line 110
  and its code is not in this file. The specification describes it as a bounded retry
  "taking attempt count, delay, and an operation returning success/failure", which
  retries "up to a fixed bound" "with a fixed inter-attempt delay": the operation is
  tried; a success ends the retry with success; a failure is followed by the delay and
  the next attempt as long as the bound allows one more; when the last allowed attempt
  fails, the retry fails, here with that attempt's error. With a bound of zero nothing
  is attempted and nothing fails. The operation \<open>f\<close> is given the number of attempts made
  before, and answers with the calls it made and its result.
\<close>

fun Retry :: "nat \<Rightarrow> Duration \<Rightarrow> (nat \<Rightarrow> 'm event list \<times> error option) \<Rightarrow> nat \<Rightarrow> 'm event list \<times> error option" where
  "Retry 0 sleep f i = ([], None)"
| "Retry (Suc n) sleep f i =
     (case f i of
        (es, None) \<Rightarrow> (es, None)
      | (es, Some err) \<Rightarrow>
          if n = 0 then (es, Some err)
          else (case Retry n sleep f (Suc i) of (es', r) \<Rightarrow> (es @ [ESleep sleep] @ es', r)))"

subsection \<open>\<open>RunE\<close>\<close>

text \<open>The closure deferred at lines 108-115.\<close>

definition release_mount :: "'m world \<Rightarrow> string \<Rightarrow> string \<Rightarrow> 'm event list" where
  "release_mount w dmgPath mountPoint =
     ELogIndent DebugLevel 2 (''Unmounting '' @ dmgPath) #
     (case Retry 3 (2 * Second)
             (\<lambda>i. ([EUnmount mountPoint False], utils_Unmount w i mountPoint False)) 0 of
        (es, None) \<Rightarrow> es
      | (es, Some err) \<Rightarrow>
          es @ [ELog ErrorLevel (''failed to unmount '' @ dmgPath @ '' at '' @ mountPoint
                                  @ '': '' @ Error err)])"

text \<open>Line 144.\<close>

definition signature_fname :: "64 word \<Rightarrow> 64 word \<Rightarrow> 64 word \<Rightarrow> string" where
  "signature_fname b c e =
     fmt_d b @ ''.'' @ fmt_d c @ ''.'' @ fmt_d e @ ''.'' @ ''personalized.signature''"

text \<open>Lines 152-157, for the \<open>fname\<close> lines 144-150 arrived at.\<close>

definition write_file :: "'m world \<Rightarrow> flags \<Rightarrow> string \<Rightarrow> bytes \<Rightarrow> 'm run" where
  "write_file w f fname sigData =
     after [ELog InfoLevel (''Writing signature to '' @ fname),
            EWriteFile fname sigData mode_0644]
       (case os_WriteFile w fname sigData mode_0644 of
          Some err \<Rightarrow>
            (Some (WrapError (''failed to write signature to '' @ output f @ '': '' @ Error err) err), [])
        | None \<Rightarrow> (None, []))"

text \<open>Lines 144-157.\<close>

definition write_signature :: "'m world \<Rightarrow> flags \<Rightarrow> bytes \<Rightarrow> 'm run" where
  "write_signature w f sigData =
     (let fname = signature_fname (boardID f) (chipID f) (ecid f) in
      if output f \<noteq> '''' then
        after [EMkdirAll (output f) mode_0750]
          (case os_MkdirAll w (output f) mode_0750 of
             Some err \<Rightarrow>
               (Some (WrapError (''failed to create output folder '' @ [CHR 0x27] @ output f
                                  @ [CHR 0x27] @ '': '' @ Error err) err), [])
           | None \<Rightarrow> write_file w f (filepath_Join w (output f) fname) sigData)
      else write_file w f fname sigData)"

text \<open>Lines 120-157, for the \<open>manifestPath\<close> lines 95-118 arrived at.\<close>

definition sign_manifest :: "'m world \<Rightarrow> flags \<Rightarrow> string \<Rightarrow> 'm run" where
  "sign_manifest w f manifestPath' =
     after [EReadFile manifestPath']
       (case os_ReadFile w manifestPath' of
          Inl err \<Rightarrow>
            (Some (WrapError (''failed to read BuildManifest.plist: '' @ Error err) err), [])
        | Inr manifestData \<Rightarrow>
            after [EParseBuildManifest manifestData]
              (case plist_ParseBuildManifest w manifestData of
                 Inl err \<Rightarrow>
                   (Some (WrapError (''failed to parse BuildManifest.plist: '' @ Error err) err), [])
               | Inr buildManifest \<Rightarrow>
                   after [EPersonalize (personal_config f buildManifest)]
                     (case tss_Personalize w (personal_config f buildManifest) of
                        Inl err \<Rightarrow>
                          (Some (WrapError (''failed to personalize DDI: '' @ Error err) err), [])
                      | Inr sigData \<Rightarrow> write_signature w f sigData)))"

text \<open>Line 96.\<close>

definition dmgPath_of :: "'m world \<Rightarrow> flags \<Rightarrow> string" where
  "dmgPath_of w f = filepath_Join w (xcode f) ''/Contents/Resources/CoreDeviceDDIs/iOS_DDI.dmg''"

text \<open>Lines 95-157 when \<open>xcode\<close> is not empty.\<close>

definition xcode_branch :: "'m world \<Rightarrow> flags \<Rightarrow> 'm run" where
  "xcode_branch w f =
     (let dmgPath = dmgPath_of w f in
      after [EStat dmgPath]
        (if errors_Is_ErrNotExist (os_Stat w dmgPath) then
           (Some (ErrorString (''failed to find iOS_DDI.dmg in '' @ [CHR 0x27] @ xcode f @ [CHR 0x27]
                                @ '' (install NEW XCode.app or Xcode-beta.app)'')), [])
         else
           after [ELogIndent InfoLevel 2 (''Mounting '' @ dmgPath), EMountDMG dmgPath]
             (case utils_MountDMG w dmgPath of
                Inl err \<Rightarrow>
                  (Some (WrapError (''failed to mount iOS_DDI.dmg: '' @ Error err) err), [])
              | Inr (mountPoint, alreadyMounted) \<Rightarrow>
                  if alreadyMounted then
                    after [ELogIndent InfoLevel 3 (dmgPath @ '' already mounted'')]
                      (sign_manifest w f (filepath_Join w mountPoint ''Restore/BuildManifest.plist''))
                  else
                    with_defer (release_mount w dmgPath mountPoint)
                      (sign_manifest w f (filepath_Join w mountPoint ''Restore/BuildManifest.plist'')))))"

text \<open>The three errors of lines 87-93.\<close>

definition err_both_sources :: error where
  "err_both_sources = ErrorString ''cannot specify both --xcode and --manifest''"

definition err_no_source :: error where
  "err_no_source = ErrorString ''must specify either --xcode or --manifest''"

definition err_identity :: error where
  "err_identity = ErrorString ''must specify --board-id, --chip-id, --ecid AND --nonce''"

text \<open>The function \<open>RunE\<close> of \<open>idevImgSignCmd\<close>, lines 71-158.\<close>

definition RunE :: "'m world \<Rightarrow> flags \<Rightarrow> 'm run" where
  "RunE w f =
     (if xcode f \<noteq> '''' \<and> manifestPath f \<noteq> '''' then (Some err_both_sources, [])
      else if xcode f = '''' \<and> manifestPath f = '''' then (Some err_no_source, [])
      else if boardID f = 0 \<or> chipID f = 0 \<or> ecid f = 0 \<or> nonce f = '''' then
        (Some err_identity, [])
      else if xcode f \<noteq> '''' then xcode_branch w f
      else sign_manifest w f (manifestPath f))"

text \<open>The command as cobra runs it: the flags take their defaults, then \<open>RunE\<close> runs.\<close>

definition sign_cmd :: "'m world \<Rightarrow> cmdline \<Rightarrow> 'm run" where
  "sign_cmd w a = RunE w (init a)"

subsection \<open>Reading a trace\<close>

text \<open>A call of \<open>utils.Unmount\<close>.\<close>

fun is_unmount :: "'m event \<Rightarrow> bool" where
  "is_unmount (EUnmount mountPoint force) = True"
| "is_unmount e = False"

text \<open>A call of \<open>utils.MountDMG\<close>.\<close>

fun is_mount :: "'m event \<Rightarrow> bool" where
  "is_mount (EMountDMG dmgPath) = True"
| "is_mount e = False"


text \<open>
  The calls only the deferred closure of lines 108-115 makes: its debug line, the
  unmounts, the sleeps between them and the line that logs the failure.
\<close>

fun is_release_event :: "'m event \<Rightarrow> bool" where
  "is_release_event (EUnmount mountPoint force) = True"
| "is_release_event (ESleep d) = True"
| "is_release_event (ELogIndent DebugLevel n s) = True"
| "is_release_event (ELog ErrorLevel s) = True"
| "is_release_event e = False"


text \<open>
  The class \<open>ConfigurationError\<close> of the specification ("mutually exclusive or missing
  required inputs"): the three errors of lines 87-93.
\<close>

definition ConfigurationError :: "error \<Rightarrow> bool" where
  "ConfigurationError err = (err = err_both_sources \<or> err = err_no_source \<or> err = err_identity)"

text \<open>A call of \<open>os.WriteFile\<close>.\<close>

fun is_write :: "'m event \<Rightarrow> bool" where
  "is_write (EWriteFile path sigData mode) = True"
| "is_write e = False"

text \<open>
  \<open>preceded_by x P es\<close>: reading \<open>es\<close> in order, no event that satisfies \<open>P\<close> is met
  before the event \<open>x\<close> has been met.
\<close>

fun preceded_by :: "'m event \<Rightarrow> ('m event \<Rightarrow> bool) \<Rightarrow> 'm event list \<Rightarrow> bool" where
  "preceded_by x P [] = True"
| "preceded_by x P (e # es) = (e = x \<or> (\<not> P e \<and> preceded_by x P es))"

text \<open>The value of \<open>fname\<close> at line 152, after lines 144-150.\<close>

definition signature_path :: "'m world \<Rightarrow> flags \<Rightarrow> string" where
  "signature_path w f =
     (if output f = '''' then signature_fname (boardID f) (chipID f) (ecid f)
      else filepath_Join w (output f) (signature_fname (boardID f) (chipID f) (ecid f)))"

text \<open>The message of the error contains the path.\<close>

definition error_names :: "error \<Rightarrow> string \<Rightarrow> bool" where
  "error_names err path = sublist path (Error err)"

subsection \<open>Example collaborators and flags\<close>

text \<open>
  A stand-in for \<open>filepath.Join\<close> in the examples below; it agrees with Go on the clean
  paths the examples use.
\<close>

definition example_Join :: "string \<Rightarrow> string \<Rightarrow> string" where
  "example_Join dir elem = (if take 1 elem = ''/'' then dir @ elem else dir @ ''/'' @ elem)"

text \<open>
  Collaborators with which every call succeeds: the image exists and is mounted by this
  invocation at \<open>/Volumes/iOS_DDI\<close>, the manifest is read and parsed, the signing service
  answers with two bytes, the signature is written, the first unmount succeeds.
\<close>

definition example_world :: "string world" where
  "example_world =
     \<lparr> filepath_Join = example_Join,
       os_Stat = (\<lambda>path. None),
       utils_MountDMG = (\<lambda>dmgPath. Inr (''/Volumes/iOS_DDI'', False)),
       utils_Unmount = (\<lambda>i mountPoint force. None),
       os_ReadFile = (\<lambda>path. Inr [1, 2, 3]),
       plist_ParseBuildManifest = (\<lambda>manifestData. Inr ''manifest''),
       tss_Personalize = (\<lambda>config. Inr [170, 187]),
       os_MkdirAll = (\<lambda>path mode. None),
       os_WriteFile = (\<lambda>path sigData mode. None) \<rparr>"

text \<open>\<open>--xcode /Applications/Xcode.app -b 100 -c 200 -e 300 -n abcd -o out\<close>\<close>

definition example_flags :: flags where
  "example_flags =
     \<lparr> xcode = ''/Applications/Xcode.app'', manifestPath = '''',
       boardID = 100, chipID = 200, ecid = 300, nonce = ''abcd'',
       output = ''out'', proxy = '''', insecure = False \<rparr>"

text \<open>An error of the mount service, for the examples.\<close>

definition busy :: error where
  "busy = ErrorString ''resource busy''"

text \<open>
  Three values of \<open>syscall.Errno\<close>. To \<open>errors.Is\<close>, \<open>ENOENT\<close> is \<open>os.ErrNotExist\<close>;
  \<open>ENOTDIR\<close> (a component of the path is not a directory) and \<open>EACCES\<close> are not.
\<close>

definition ENOENT :: error where
  "ENOENT = WrapError ''no such file or directory'' ErrNotExist"

definition ENOTDIR :: error where
  "ENOTDIR = ErrorString ''not a directory''"

definition EACCES :: error where
  "EACCES = ErrorString ''permission denied''"

text \<open>
  The signing service rejects the request; the first unmount finds the volume busy and
  the second succeeds.
\<close>

definition world_signing_fails :: "string world" where
  "world_signing_fails =
     example_world\<lparr> tss_Personalize := (\<lambda>config. Inl (ErrorString ''rejected'')),
                    utils_Unmount := (\<lambda>i mountPoint force. if i = 0 then Some busy else None) \<rparr>"

text \<open>The image was mounted before the command ran.\<close>

definition world_already_mounted :: "string world" where
  "world_already_mounted =
     example_world\<lparr> utils_MountDMG := (\<lambda>dmgPath. Inr (''/Volumes/iOS_DDI'', True)) \<rparr>"


text \<open>The signature cannot be written.\<close>

definition world_write_denied :: "string world" where
  "world_write_denied = example_world\<lparr> os_WriteFile := (\<lambda>path sigData mode. Some (PathError ''open'' path EACCES)) \<rparr>"

text \<open>The output folder cannot be created.\<close>

definition world_mkdir_denied :: "string world" where
  "world_mkdir_denied = example_world\<lparr> os_MkdirAll := (\<lambda>path mode. Some (PathError ''mkdir'' path EACCES)) \<rparr>"

text \<open>\<open>iOS_DDI.dmg\<close> is not in the Xcode installation.\<close>

definition world_image_absent :: "string world" where
  "world_image_absent =
     example_world\<lparr> os_Stat := (\<lambda>path. Some (PathError ''stat'' path ENOENT)) \<rparr>"

text \<open>\<open>--xcode /Applications/Xcode.app --manifest BuildManifest.plist ...\<close>\<close>

definition flags_two_sources :: flags where
  "flags_two_sources = example_flags\<lparr> manifestPath := ''BuildManifest.plist'' \<rparr>"

text \<open>\<open>--xcode "" ...\<close>\<close>

definition flags_no_source :: flags where
  "flags_no_source = example_flags\<lparr> xcode := '''' \<rparr>"

text \<open>\<open>--xcode /Applications/Xcode.app -b 100 -c 200 -e 300\<close>, no nonce.\<close>

definition flags_no_nonce :: flags where
  "flags_no_nonce = example_flags\<lparr> nonce := '''' \<rparr>"

text \<open>\<open>--xcode /Applications/Xcode.app --manifest BuildManifest.plist -c 200 -e 300 -n abcd\<close>, no board id.\<close>

definition flags_two_sources_no_board :: flags where
  "flags_two_sources_no_board =
     example_flags\<lparr> manifestPath := ''BuildManifest.plist'', boardID := 0 \<rparr>"

text \<open>\<open>--xcode "" --manifest BuildManifest.plist -b 100 -c 200 -e 300 -n abcd\<close>\<close>

definition flags_manifest :: flags where
  "flags_manifest =
     \<lparr> xcode = '''', manifestPath = ''BuildManifest.plist'',
       boardID = 100, chipID = 200, ecid = 300, nonce = ''abcd'',
       output = '''', proxy = '''', insecure = False \<rparr>"

text \<open>The same with \<open>-o out\<close>.\<close>

definition flags_manifest_out :: flags where
  "flags_manifest_out = flags_manifest\<lparr> output := ''out'' \<rparr>"

text \<open>The command line \<open>-b 100 -c 200 -e 300 -n abcd\<close>: neither \<open>--xcode\<close> nor \<open>--manifest\<close>.\<close>

definition cmdline_identity_only :: cmdline where
  "cmdline_identity_only =
     \<lparr> arg_xcode = None, arg_manifest = None, arg_board_id = Some 100, arg_chip_id = Some 200,
       arg_ecid = Some 300, arg_nonce = Some ''abcd'', arg_proxy = None, arg_insecure = None,
       arg_output = None \<rparr>"

text \<open>The same with \<open>--xcode ""\<close>.\<close>

definition cmdline_empty_xcode :: cmdline where
  "cmdline_empty_xcode = cmdline_identity_only\<lparr> arg_xcode := Some '''' \<rparr>"

text \<open>
  \<open>--xcode /etc/hosts\<close>: the root is a file, so no image is under it; the stat fails with
  \<open>ENOTDIR\<close> and the mount service fails on the missing image.
\<close>

definition world_xcode_is_file :: "string world" where
  "world_xcode_is_file =
     example_world\<lparr> os_Stat := (\<lambda>path. Some (PathError ''stat'' path ENOTDIR)),
                    utils_MountDMG := (\<lambda>dmgPath. Inl (ErrorString ''exit status 1'')) \<rparr>"

definition flags_xcode_is_file :: flags where
  "flags_xcode_is_file = example_flags\<lparr> xcode := ''/etc/hosts'' \<rparr>"

text \<open>The command line without any flag.\<close>

definition cmdline_nothing :: cmdline where
  "cmdline_nothing =
     \<lparr> arg_xcode = None, arg_manifest = None, arg_board_id = None, arg_chip_id = None,
       arg_ecid = None, arg_nonce = None, arg_proxy = None, arg_insecure = None,
       arg_output = None \<rparr>"

section \<open>Properties\<close>

subsection \<open>Unfolding the run\<close>

lemmas run_defs = RunE_def xcode_branch_def sign_manifest_def write_signature_def write_file_def
  after_def with_defer_def

lemmas example_defs = example_world_def example_flags_def example_Join_def busy_def PathError_def ENOENT_def ENOTDIR_def EACCES_def
  errors_Is_ErrNotExist_def dmgPath_of_def personal_config_def signature_fname_def fmt_d_def
  fmt_d_nat.simps digit_char_def mode_0644_def mode_0750_def Second_def Let_def

lemma Retry_Suc3:
  "Retry (Suc (Suc (Suc 0))) d f i =
     (case f i of
        (es, None) \<Rightarrow> (es, None)
      | (es, Some err) \<Rightarrow>
          (case f (Suc i) of
             (es', None) \<Rightarrow> (es @ [ESleep d] @ es', None)
           | (es', Some err') \<Rightarrow>
               (case f (Suc (Suc i)) of
                  (es'', r) \<Rightarrow> (es @ [ESleep d] @ es' @ [ESleep d] @ es'', r))))"
  by (simp split: prod.splits option.splits)

lemma Retry_3:
  "Retry 3 d f i =
     (case f i of
        (es, None) \<Rightarrow> (es, None)
      | (es, Some err) \<Rightarrow>
          (case f (Suc i) of
             (es', None) \<Rightarrow> (es @ [ESleep d] @ es', None)
           | (es', Some err') \<Rightarrow>
               (case f (Suc (Suc i)) of
                  (es'', r) \<Rightarrow> (es @ [ESleep d] @ es' @ [ESleep d] @ es'', r))))"
  using Retry_Suc3 [of d f i] by (simp only: numeral_3_eq_3)

text \<open>The four ways the deferred closure can run.\<close>

lemma release_mount_cases:
  "release_mount w dmgPath mp =
     ELogIndent DebugLevel 2 (''Unmounting '' @ dmgPath) #
     (case utils_Unmount w 0 mp False of
        None \<Rightarrow> [EUnmount mp False]
      | Some e0 \<Rightarrow>
          (case utils_Unmount w 1 mp False of
             None \<Rightarrow> [EUnmount mp False, ESleep (2 * Second), EUnmount mp False]
           | Some e1 \<Rightarrow>
               (case utils_Unmount w 2 mp False of
                  None \<Rightarrow> [EUnmount mp False, ESleep (2 * Second), EUnmount mp False,
                            ESleep (2 * Second), EUnmount mp False]
                | Some e2 \<Rightarrow> [EUnmount mp False, ESleep (2 * Second), EUnmount mp False,
                            ESleep (2 * Second), EUnmount mp False,
                            ELog ErrorLevel (''failed to unmount '' @ dmgPath @ '' at '' @ mp
                                  @ '': '' @ Error e2)])))"
  by (simp add: release_mount_def Retry_3 numeral_2_eq_2 split: option.splits)

lemma release_mount_unmounts:
  "1 \<le> length (filter is_unmount (release_mount w d mp))"
  "length (filter is_unmount (release_mount w d mp)) \<le> 3"
  by (simp_all add: release_mount_cases split: option.splits)


lemma release_mount_marker:
  "count_list (release_mount w d mp) (ELogIndent DebugLevel 2 (''Unmounting '' @ d)) = 1"
  by (simp add: release_mount_cases split: option.splits)

text \<open>Lines 120-157 make none of the calls of the deferred closure.\<close>

lemma sign_manifest_no_release:
  "e \<in> set (snd (sign_manifest w f p)) \<Longrightarrow> \<not> is_release_event e"
  by (auto simp: sign_manifest_def write_signature_def write_file_def after_def Let_def
           split: sum.splits option.splits if_splits)

lemma unmount_is_release: "is_unmount e \<Longrightarrow> is_release_event e"
  by (cases e) simp_all

lemma sign_manifest_no_unmount: "filter is_unmount (snd (sign_manifest w f p)) = []"
  using sign_manifest_no_release [of _ w f p] unmount_is_release
  by (auto simp: filter_empty_conv)

lemma sign_manifest_no_marker:
  "count_list (snd (sign_manifest w f p)) (ELogIndent DebugLevel n s) = 0"
proof -
  have "is_release_event (ELogIndent DebugLevel n s :: 'a event)" by simp
  then have "ELogIndent DebugLevel n s \<notin> set (snd (sign_manifest w f p))"
    using sign_manifest_no_release by blast
  then show ?thesis by (simp only: count_list_0_iff not_False_eq_True)
qed

text \<open>The xcode branch once the image is found and mounted by this invocation.\<close>

lemma xcode_branch_acquired:
  assumes "\<not> errors_Is_ErrNotExist (os_Stat w (dmgPath_of w f))"
    and "utils_MountDMG w (dmgPath_of w f) = Inr (mp, False)"
  shows "xcode_branch w f =
     (fst (sign_manifest w f (filepath_Join w mp ''Restore/BuildManifest.plist'')),
      [EStat (dmgPath_of w f), ELogIndent InfoLevel 2 (''Mounting '' @ dmgPath_of w f),
       EMountDMG (dmgPath_of w f)]
      @ snd (sign_manifest w f (filepath_Join w mp ''Restore/BuildManifest.plist''))
      @ release_mount w (dmgPath_of w f) mp)"
  using assms by (simp add: xcode_branch_def after_def with_defer_def Let_def)

text \<open>The six ways through \<open>RunE\<close> up to line 120.\<close>

lemma RunE_cases:
  "(snd (RunE w f) = [] \<and> fst (RunE w f) \<noteq> None)
   \<or> (xcode f = '''' \<and> RunE w f = sign_manifest w f (manifestPath f))
   \<or> (snd (RunE w f) = [EStat (dmgPath_of w f)] \<and> fst (RunE w f) \<noteq> None)
   \<or> (snd (RunE w f) = [EStat (dmgPath_of w f),
                          ELogIndent InfoLevel 2 (''Mounting '' @ dmgPath_of w f),
                          EMountDMG (dmgPath_of w f)] \<and> fst (RunE w f) \<noteq> None)
   \<or> (\<exists>mp. utils_MountDMG w (dmgPath_of w f) = Inr (mp, True)
         \<and> fst (RunE w f) = fst (sign_manifest w f (filepath_Join w mp ''Restore/BuildManifest.plist''))
         \<and> snd (RunE w f) =
              [EStat (dmgPath_of w f), ELogIndent InfoLevel 2 (''Mounting '' @ dmgPath_of w f),
               EMountDMG (dmgPath_of w f),
               ELogIndent InfoLevel 3 (dmgPath_of w f @ '' already mounted'')]
              @ snd (sign_manifest w f (filepath_Join w mp ''Restore/BuildManifest.plist'')))
   \<or> (\<exists>mp. utils_MountDMG w (dmgPath_of w f) = Inr (mp, False)
         \<and> fst (RunE w f) = fst (sign_manifest w f (filepath_Join w mp ''Restore/BuildManifest.plist''))
         \<and> snd (RunE w f) =
              [EStat (dmgPath_of w f), ELogIndent InfoLevel 2 (''Mounting '' @ dmgPath_of w f),
               EMountDMG (dmgPath_of w f)]
              @ snd (sign_manifest w f (filepath_Join w mp ''Restore/BuildManifest.plist''))
              @ release_mount w (dmgPath_of w f) mp)"
  by (auto simp: RunE_def xcode_branch_def after_def with_defer_def Let_def dmgPath_of_def
           split: sum.splits)

subsection \<open>The mount is released on every path, and only if this invocation made it\<close>

lemma release_mount_starts:
  "\<exists>post. release_mount w d mp
            = ELogIndent DebugLevel 2 (''Unmounting '' @ d) # EUnmount mp False # post
          \<and> (\<forall>e\<in>set post. is_release_event e)"
  by (simp add: release_mount_cases split: option.splits)

lemma release_mount_unmounts_only:
  "EUnmount mp' force \<in> set (release_mount w d mp) \<Longrightarrow> mp' = mp \<and> force = False"
  by (auto simp: release_mount_cases split: option.splits)

lemma sign_manifest_no_EUnmount: "EUnmount mp force \<notin> set (snd (sign_manifest w f p))"
  using sign_manifest_no_release [of "EUnmount mp force" w f p] by auto

text \<open>
  C1. On the xcode branch, when this invocation acquired the mount (\<open>utils.MountDMG\<close>
  answered \<open>alreadyMounted = false\<close>) and the command returns an error, which can then
  only come from reading or parsing the manifest, from the signing service or from
  writing (it is the error of lines 120-157), the deferred closure has run: after the
  calls of the failing stages, none of which is a call of the closure, the trace goes on
  with the line \<open>Unmounting ...\<close> and the call \<open>utils.Unmount(mountPoint, false)\<close> on the
  mount point \<open>utils.MountDMG\<close> returned, and ends with calls of the closure only. Every
  unmount of the run is of that mount point, without force; the line \<open>Unmounting ...\<close>
  occurs exactly once in the whole trace. All of this is in the trace, that is, it
  happens before \<open>RunE\<close> hands the error to its caller.
\<close>

theorem release_runs_once_after_failure:
  assumes "xcode f \<noteq> ''''" and "manifestPath f = ''''"
    and "boardID f \<noteq> 0" and "chipID f \<noteq> 0" and "ecid f \<noteq> 0" and "nonce f \<noteq> ''''"
    and "\<not> errors_Is_ErrNotExist (os_Stat w (dmgPath_of w f))"
    and "utils_MountDMG w (dmgPath_of w f) = Inr (mountPoint, False)"
    and "fst (RunE w f) = Some err"
  shows "(\<exists>pre post. snd (RunE w f)
              = pre @ ELogIndent DebugLevel 2 (''Unmounting '' @ dmgPath_of w f)
                    # EUnmount mountPoint False # post
            \<and> EMountDMG (dmgPath_of w f) \<in> set pre
            \<and> (\<forall>e\<in>set pre. \<not> is_release_event e)
            \<and> (\<forall>e\<in>set post. is_release_event e))
         \<and> (\<exists>pre. snd (RunE w f) = pre @ release_mount w (dmgPath_of w f) mountPoint
            \<and> EMountDMG (dmgPath_of w f) \<in> set pre
            \<and> (\<forall>e\<in>set pre. \<not> is_release_event e))
         \<and> (\<forall>mp force. EUnmount mp force \<in> set (snd (RunE w f)) \<longrightarrow>
               mp = mountPoint \<and> force = False)
         \<and> EUnmount mountPoint False \<in> set (snd (RunE w f))
         \<and> count_list (snd (RunE w f)) (ELogIndent DebugLevel 2 (''Unmounting '' @ dmgPath_of w f)) = 1
         \<and> 1 \<le> length (filter is_unmount (snd (RunE w f)))
         \<and> fst (sign_manifest w f (filepath_Join w mountPoint ''Restore/BuildManifest.plist''))
               = Some err"
proof -
  let ?p = "filepath_Join w mountPoint ''Restore/BuildManifest.plist''"
  let ?pre = "[EStat (dmgPath_of w f), ELogIndent InfoLevel 2 (''Mounting '' @ dmgPath_of w f),
       EMountDMG (dmgPath_of w f)] @ snd (sign_manifest w f ?p)"
  let ?marker = "ELogIndent DebugLevel 2 (''Unmounting '' @ dmgPath_of w f) :: 'a event"
  have run: "snd (RunE w f) = ?pre @ release_mount w (dmgPath_of w f) mountPoint"
    using assms(1-6) by (simp add: RunE_def xcode_branch_acquired [OF assms(7,8)])
  have pre: "\<forall>e\<in>set ?pre. \<not> is_release_event e"
    using sign_manifest_no_release [of _ w f ?p] by auto
  have mnt: "EMountDMG (dmgPath_of w f) \<in> set ?pre" by simp
  obtain post where post: "release_mount w (dmgPath_of w f) mountPoint
            = ?marker # EUnmount mountPoint False # post"
    and rel: "\<forall>e\<in>set post. is_release_event e"
    using release_mount_starts [of w "dmgPath_of w f" mountPoint] by blast
  have shape: "\<exists>pre post. snd (RunE w f) = pre @ ?marker # EUnmount mountPoint False # post
            \<and> EMountDMG (dmgPath_of w f) \<in> set pre
            \<and> (\<forall>e\<in>set pre. \<not> is_release_event e)
            \<and> (\<forall>e\<in>set post. is_release_event e)"
  proof (intro exI conjI)
    show "snd (RunE w f) = ?pre @ ?marker # EUnmount mountPoint False # post"
      by (simp only: run post)
  qed (use mnt pre rel in blast)+
  have shape': "\<exists>pre. snd (RunE w f) = pre @ release_mount w (dmgPath_of w f) mountPoint
            \<and> EMountDMG (dmgPath_of w f) \<in> set pre
            \<and> (\<forall>e\<in>set pre. \<not> is_release_event e)"
    using run mnt pre by blast
  have only: "mp = mountPoint \<and> force = False"
    if "EUnmount mp force \<in> set (snd (RunE w f))" for mp force
  proof -
    from that sign_manifest_no_EUnmount [of mp force w f ?p]
    have "EUnmount mp force \<in> set (release_mount w (dmgPath_of w f) mountPoint)"
      by (simp add: run)
    then show ?thesis by (rule release_mount_unmounts_only)
  qed
  have there: "EUnmount mountPoint False \<in> set (snd (RunE w f))"
    by (simp add: run post)
  have "count_list ?pre ?marker = 0"
    by (simp add: sign_manifest_no_marker)
  then have once: "count_list (snd (RunE w f)) ?marker = 1"
    by (simp only: run count_list_append release_mount_marker)
  have some: "1 \<le> length (filter is_unmount (snd (RunE w f)))"
    using release_mount_unmounts(1) [of w "dmgPath_of w f" mountPoint]
    by (simp only: run filter_append length_append)
  have stage: "fst (sign_manifest w f ?p) = Some err"
    using assms(1-6,9) by (simp add: RunE_def xcode_branch_acquired [OF assms(7,8)])
  from shape shape' only there once some stage show ?thesis by blast
qed

theorem release_runs_once_after_failure_witness:
  "fst (RunE world_signing_fails example_flags)
     = Some (WrapError ''failed to personalize DDI: rejected'' (ErrorString ''rejected''))
   \<and> snd (RunE world_signing_fails example_flags) =
       [EStat ''/Applications/Xcode.app/Contents/Resources/CoreDeviceDDIs/iOS_DDI.dmg'',
        ELogIndent InfoLevel 2
          ''Mounting /Applications/Xcode.app/Contents/Resources/CoreDeviceDDIs/iOS_DDI.dmg'',
        EMountDMG ''/Applications/Xcode.app/Contents/Resources/CoreDeviceDDIs/iOS_DDI.dmg'',
        EReadFile ''/Volumes/iOS_DDI/Restore/BuildManifest.plist'',
        EParseBuildManifest [1, 2, 3],
        EPersonalize (personal_config example_flags ''manifest''),
        ELogIndent DebugLevel 2
          ''Unmounting /Applications/Xcode.app/Contents/Resources/CoreDeviceDDIs/iOS_DDI.dmg'',
        EUnmount ''/Volumes/iOS_DDI'' False,
        ESleep 2000000000,
        EUnmount ''/Volumes/iOS_DDI'' False]
   \<and> EUnmount ''/Volumes/iOS_DDI'' False \<in> set (snd (RunE world_signing_fails example_flags))
   \<and> count_list (snd (RunE world_signing_fails example_flags))
        (ELogIndent DebugLevel 2 (''Unmounting '' @ dmgPath_of world_signing_fails example_flags)) = 1
   \<and> 1 \<le> length (filter is_unmount (snd (RunE world_signing_fails example_flags)))"
proof -
  have r: "fst (RunE world_signing_fails example_flags)
     = Some (WrapError ''failed to personalize DDI: rejected'' (ErrorString ''rejected''))"
    by (simp add: world_signing_fails_def run_defs example_defs)
  have t: "snd (RunE world_signing_fails example_flags) =
       [EStat ''/Applications/Xcode.app/Contents/Resources/CoreDeviceDDIs/iOS_DDI.dmg'',
        ELogIndent InfoLevel 2
          ''Mounting /Applications/Xcode.app/Contents/Resources/CoreDeviceDDIs/iOS_DDI.dmg'',
        EMountDMG ''/Applications/Xcode.app/Contents/Resources/CoreDeviceDDIs/iOS_DDI.dmg'',
        EReadFile ''/Volumes/iOS_DDI/Restore/BuildManifest.plist'',
        EParseBuildManifest [1, 2, 3],
        EPersonalize (personal_config example_flags ''manifest''),
        ELogIndent DebugLevel 2
          ''Unmounting /Applications/Xcode.app/Contents/Resources/CoreDeviceDDIs/iOS_DDI.dmg'',
        EUnmount ''/Volumes/iOS_DDI'' False,
        ESleep 2000000000,
        EUnmount ''/Volumes/iOS_DDI'' False]"
    by (simp add: world_signing_fails_def run_defs example_defs release_mount_cases)
  have s: "\<not> errors_Is_ErrNotExist
             (os_Stat world_signing_fails (dmgPath_of world_signing_fails example_flags))"
    by (simp add: world_signing_fails_def example_defs)
  have m: "utils_MountDMG world_signing_fails (dmgPath_of world_signing_fails example_flags)
             = Inr (''/Volumes/iOS_DDI'', False)"
    by (simp add: world_signing_fails_def example_defs)
  have "xcode example_flags \<noteq> ''''" "manifestPath example_flags = ''''"
    "boardID example_flags \<noteq> 0" "chipID example_flags \<noteq> 0" "ecid example_flags \<noteq> 0"
    "nonce example_flags \<noteq> ''''"
    by (simp_all add: example_flags_def)
  from release_runs_once_after_failure [OF this s m r] r t show ?thesis by blast
qed

text \<open>
  C2. When \<open>utils.MountDMG\<close> reports that the image was already mounted, the invocation
  never calls \<open>utils.Unmount\<close>.
\<close>

theorem no_unmount_when_already_mounted:
  assumes "utils_MountDMG w (dmgPath_of w f) = Inr (mountPoint, True)"
  shows "filter is_unmount (snd (RunE w f)) = []"
  using assms
  by (simp add: RunE_def xcode_branch_def after_def Let_def sign_manifest_no_unmount)

theorem no_unmount_when_already_mounted_witness:
  "utils_MountDMG world_already_mounted (dmgPath_of world_already_mounted example_flags)
     = Inr (''/Volumes/iOS_DDI'', True)
   \<and> EMountDMG (dmgPath_of world_already_mounted example_flags)
        \<in> set (snd (RunE world_already_mounted example_flags))
   \<and> filter is_unmount (snd (RunE world_already_mounted example_flags)) = []"
proof -
  have m: "utils_MountDMG world_already_mounted (dmgPath_of world_already_mounted example_flags)
     = Inr (''/Volumes/iOS_DDI'', True)"
    by (simp add: world_already_mounted_def example_defs)
  have e: "EMountDMG (dmgPath_of world_already_mounted example_flags)
        \<in> set (snd (RunE world_already_mounted example_flags))"
    by (simp add: world_already_mounted_def run_defs example_defs)
  from no_unmount_when_already_mounted [OF m] m e show ?thesis by blast
qed

subsection \<open>The unmount is retried a bounded number of times and its failure is only logged\<close>










subsection \<open>Validation of the flags\<close>

lemmas config_errors = err_both_sources_def err_no_source_def err_identity_def ConfigurationError_def

text \<open>
  C4. When the xcode path and the manifest path are both set, or both empty, \<open>RunE\<close>
  returns a configuration error (the first or the second message of lines 87-90) and its
  trace is empty: no stat, mount, read, signing call or write was made.
\<close>

theorem source_conflict_fails_before_any_effect:
  assumes "(xcode f \<noteq> '''' \<and> manifestPath f \<noteq> '''') \<or> (xcode f = '''' \<and> manifestPath f = '''')"
  shows "snd (RunE w f) = []
       \<and> (\<exists>err. fst (RunE w f) = Some err \<and> ConfigurationError err)
       \<and> fst (RunE w f) =
           Some (ErrorString (if xcode f \<noteq> '''' then ''cannot specify both --xcode and --manifest''
                              else ''must specify either --xcode or --manifest''))"
  using assms by (auto simp: RunE_def config_errors)

theorem source_conflict_fails_before_any_effect_witness:
  "xcode flags_two_sources \<noteq> '''' \<and> manifestPath flags_two_sources \<noteq> ''''
   \<and> RunE example_world flags_two_sources
       = (Some (ErrorString ''cannot specify both --xcode and --manifest''), [])
   \<and> xcode flags_no_source = '''' \<and> manifestPath flags_no_source = ''''
   \<and> RunE example_world flags_no_source
       = (Some (ErrorString ''must specify either --xcode or --manifest''), [])"
proof -
  have two: "xcode flags_two_sources \<noteq> '''' \<and> manifestPath flags_two_sources \<noteq> ''''"
    by (simp add: flags_two_sources_def example_flags_def)
  have none: "xcode flags_no_source = '''' \<and> manifestPath flags_no_source = ''''"
    by (simp add: flags_no_source_def example_flags_def)
  from two have h1: "(xcode flags_two_sources \<noteq> '''' \<and> manifestPath flags_two_sources \<noteq> '''')
      \<or> (xcode flags_two_sources = '''' \<and> manifestPath flags_two_sources = '''')" by blast
  from none have h2: "(xcode flags_no_source \<noteq> '''' \<and> manifestPath flags_no_source \<noteq> '''')
      \<or> (xcode flags_no_source = '''' \<and> manifestPath flags_no_source = '''')" by blast
  from source_conflict_fails_before_any_effect [OF h1, of example_world]
       source_conflict_fails_before_any_effect [OF h2, of example_world] two none
  show ?thesis by (simp add: prod_eq_iff)
qed

text \<open>
  C5, as stated, fails: with both \<open>--xcode\<close> and \<open>--manifest\<close> set and no board id, the
  check of line 87 comes first and the error names the two source flags, not the
  identity flags.
\<close>

theorem missing_identity_counterexample:
  "boardID flags_two_sources_no_board = 0
   \<and> fst (RunE example_world flags_two_sources_no_board)
       = Some (ErrorString ''cannot specify both --xcode and --manifest'')
   \<and> fst (RunE example_world flags_two_sources_no_board)
       \<noteq> Some (ErrorString ''must specify --board-id, --chip-id, --ecid AND --nonce'')"
  by (simp add: flags_two_sources_no_board_def example_flags_def RunE_def config_errors)

text \<open>
  C5, amended. When one of board id, chip id and ecid is zero, or the nonce is empty,
  \<open>RunE\<close> returns a configuration error and its trace is empty. The error is the one
  naming \<open>--board-id\<close>, \<open>--chip-id\<close>, \<open>--ecid\<close> and \<open>--nonce\<close> when exactly one of the xcode
  path and the manifest path is set; otherwise the checks of lines 87-90 come first and
  the error names the source flags.
\<close>

theorem missing_identity_fails_before_any_effect:
  assumes "boardID f = 0 \<or> chipID f = 0 \<or> ecid f = 0 \<or> nonce f = ''''"
  shows "snd (RunE w f) = []
       \<and> (\<exists>err. fst (RunE w f) = Some err \<and> ConfigurationError err)
       \<and> ((xcode f = '''') \<noteq> (manifestPath f = '''') \<longrightarrow>
            fst (RunE w f)
              = Some (ErrorString ''must specify --board-id, --chip-id, --ecid AND --nonce''))
       \<and> (xcode f \<noteq> '''' \<and> manifestPath f \<noteq> '''' \<longrightarrow>
            fst (RunE w f) = Some (ErrorString ''cannot specify both --xcode and --manifest''))
       \<and> (xcode f = '''' \<and> manifestPath f = '''' \<longrightarrow>
            fst (RunE w f) = Some (ErrorString ''must specify either --xcode or --manifest''))"
  using assms by (auto simp: RunE_def config_errors)

theorem missing_identity_fails_before_any_effect_witness:
  "nonce flags_no_nonce = '''' \<and> (xcode flags_no_nonce = '''') \<noteq> (manifestPath flags_no_nonce = '''')
   \<and> RunE example_world flags_no_nonce
       = (Some (ErrorString ''must specify --board-id, --chip-id, --ecid AND --nonce''), [])"
proof -
  have n: "nonce flags_no_nonce = ''''"
    and x: "(xcode flags_no_nonce = '''') \<noteq> (manifestPath flags_no_nonce = '''')"
    by (simp_all add: flags_no_nonce_def example_flags_def)
  from n have h: "boardID flags_no_nonce = 0 \<or> chipID flags_no_nonce = 0 \<or> ecid flags_no_nonce = 0
      \<or> nonce flags_no_nonce = ''''" by blast
  from missing_identity_fails_before_any_effect [OF h, of example_world] n x
  show ?thesis by (simp add: prod_eq_iff)
qed

subsection \<open>The default of \<open>--xcode\<close>\<close>

lemma sign_manifest_not_no_source: "fst (sign_manifest w f p) \<noteq> Some err_no_source"
  by (simp add: sign_manifest_def write_signature_def write_file_def after_def Let_def
        err_no_source_def split: sum.splits option.splits)

lemma xcode_branch_not_no_source: "fst (xcode_branch w f) \<noteq> Some err_no_source"
  using sign_manifest_not_no_source [of w f]
  by (simp add: xcode_branch_def after_def with_defer_def Let_def err_no_source_def
           split: sum.splits)

lemma RunE_no_source_iff:
  "fst (RunE w f) = Some err_no_source \<longleftrightarrow> xcode f = '''' \<and> manifestPath f = ''''"
  using sign_manifest_not_no_source [of w f] xcode_branch_not_no_source [of w f]
  by (simp add: RunE_def config_errors)

lemma xcode_branch_starts_with_stat:
  "hd (snd (xcode_branch w f)) = EStat (dmgPath_of w f)"
  by (simp add: xcode_branch_def after_def Let_def)

text \<open>
  C10, as stated, fails in its middle part: with no flag at all the command does not go
  on to the xcode branch; it returns the identity error of line 92 and makes no call.
\<close>

theorem default_xcode_counterexample:
  "arg_xcode cmdline_nothing = None \<and> arg_manifest cmdline_nothing = None
   \<and> sign_cmd example_world cmdline_nothing
       = (Some (ErrorString ''must specify --board-id, --chip-id, --ecid AND --nonce''), [])
   \<and> filter is_mount (snd (sign_cmd example_world cmdline_nothing)) = []
   \<and> EStat ''/Applications/Xcode.app/Contents/Resources/CoreDeviceDDIs/iOS_DDI.dmg''
        \<notin> set (snd (sign_cmd example_world cmdline_nothing))"
  by (simp add: cmdline_nothing_def sign_cmd_def init_def flag_value_def RunE_def config_errors)

text \<open>
  C10, amended. With neither \<open>--xcode\<close> nor \<open>--manifest\<close> on the command line, the
  command does not return the error \<open>must specify either --xcode or --manifest\<close>. When
  board id, chip id and ecid are not zero and the nonce is not empty it runs the xcode
  branch, whose first call is the stat of \<open>iOS_DDI.dmg\<close> under the default
  \<open>/Applications/Xcode.app\<close>; otherwise it returns the identity error of line 92 and
  makes no call. The error \<open>must specify either --xcode or --manifest\<close> is returned
  exactly when \<open>--xcode\<close> is given the empty string and \<open>--manifest\<close> is absent or empty.
\<close>

theorem default_xcode_hides_missing_source_error:
  "(arg_xcode a = None \<and> arg_manifest a = None \<longrightarrow>
      fst (sign_cmd w a) \<noteq> Some (ErrorString ''must specify either --xcode or --manifest'')
      \<and> (boardID (init a) \<noteq> 0 \<and> chipID (init a) \<noteq> 0 \<and> ecid (init a) \<noteq> 0
           \<and> nonce (init a) \<noteq> '''' \<longrightarrow>
         sign_cmd w a = xcode_branch w (init a)
         \<and> hd (snd (sign_cmd w a))
             = EStat (filepath_Join w ''/Applications/Xcode.app''
                        ''/Contents/Resources/CoreDeviceDDIs/iOS_DDI.dmg''))
      \<and> (boardID (init a) = 0 \<or> chipID (init a) = 0 \<or> ecid (init a) = 0
           \<or> nonce (init a) = '''' \<longrightarrow>
         sign_cmd w a
           = (Some (ErrorString ''must specify --board-id, --chip-id, --ecid AND --nonce''), [])))
   \<and> (fst (sign_cmd w a) = Some (ErrorString ''must specify either --xcode or --manifest'')
        \<longleftrightarrow> arg_xcode a = Some '''' \<and> (arg_manifest a = None \<or> arg_manifest a = Some ''''))"
proof -
  have iff: "fst (sign_cmd w a) = Some (ErrorString ''must specify either --xcode or --manifest'')
        \<longleftrightarrow> arg_xcode a = Some '''' \<and> (arg_manifest a = None \<or> arg_manifest a = Some '''')"
    using RunE_no_source_iff [of w "init a"]
    by (auto simp: sign_cmd_def err_no_source_def init_def flag_value_def split: option.splits)
  have neq: "fst (sign_cmd w a) \<noteq> Some (ErrorString ''must specify either --xcode or --manifest'')"
    if "arg_xcode a = None"
    using that iff by simp
  have src: "xcode (init a) = ''/Applications/Xcode.app''" "manifestPath (init a) = ''''"
    if "arg_xcode a = None" "arg_manifest a = None"
    using that by (simp_all add: init_def flag_value_def)
  have dflt: "sign_cmd w a = xcode_branch w (init a)
         \<and> hd (snd (sign_cmd w a))
             = EStat (filepath_Join w ''/Applications/Xcode.app''
                        ''/Contents/Resources/CoreDeviceDDIs/iOS_DDI.dmg'')"
    if "arg_xcode a = None" "arg_manifest a = None"
      "boardID (init a) \<noteq> 0" "chipID (init a) \<noteq> 0" "ecid (init a) \<noteq> 0" "nonce (init a) \<noteq> ''''"
  proof -
    from src [OF that(1,2)] that(3-6) have run: "sign_cmd w a = xcode_branch w (init a)"
      by (simp add: sign_cmd_def RunE_def)
    from src(1) [OF that(1,2)]
    have "dmgPath_of w (init a) = filepath_Join w ''/Applications/Xcode.app''
                        ''/Contents/Resources/CoreDeviceDDIs/iOS_DDI.dmg''"
      by (simp add: dmgPath_of_def)
    with run xcode_branch_starts_with_stat [of w "init a"] show ?thesis by simp
  qed
  have ident: "sign_cmd w a
           = (Some (ErrorString ''must specify --board-id, --chip-id, --ecid AND --nonce''), [])"
    if "arg_xcode a = None" "arg_manifest a = None"
      "boardID (init a) = 0 \<or> chipID (init a) = 0 \<or> ecid (init a) = 0 \<or> nonce (init a) = ''''"
    using src [OF that(1,2)] that(3) by (auto simp: sign_cmd_def RunE_def config_errors)
  show ?thesis
  proof (intro conjI impI)
    assume "arg_xcode a = None \<and> arg_manifest a = None"
    then show "fst (sign_cmd w a) \<noteq> Some (ErrorString ''must specify either --xcode or --manifest'')"
      using neq by blast
  next
    assume "arg_xcode a = None \<and> arg_manifest a = None"
      and "boardID (init a) \<noteq> 0 \<and> chipID (init a) \<noteq> 0 \<and> ecid (init a) \<noteq> 0 \<and> nonce (init a) \<noteq> ''''"
    then show "sign_cmd w a = xcode_branch w (init a)" using dflt by blast
  next
    assume "arg_xcode a = None \<and> arg_manifest a = None"
      and "boardID (init a) \<noteq> 0 \<and> chipID (init a) \<noteq> 0 \<and> ecid (init a) \<noteq> 0 \<and> nonce (init a) \<noteq> ''''"
    then show "hd (snd (sign_cmd w a))
             = EStat (filepath_Join w ''/Applications/Xcode.app''
                        ''/Contents/Resources/CoreDeviceDDIs/iOS_DDI.dmg'')" using dflt by blast
  next
    assume "arg_xcode a = None \<and> arg_manifest a = None"
      and "boardID (init a) = 0 \<or> chipID (init a) = 0 \<or> ecid (init a) = 0 \<or> nonce (init a) = ''''"
    then show "sign_cmd w a
           = (Some (ErrorString ''must specify --board-id, --chip-id, --ecid AND --nonce''), [])"
      using ident by blast
  next
    show "fst (sign_cmd w a) = Some (ErrorString ''must specify either --xcode or --manifest'')
        \<longleftrightarrow> arg_xcode a = Some '''' \<and> (arg_manifest a = None \<or> arg_manifest a = Some '''')"
      by (rule iff)
  qed
qed

theorem default_xcode_hides_missing_source_error_witness:
  "arg_xcode cmdline_identity_only = None \<and> arg_manifest cmdline_identity_only = None
   \<and> fst (sign_cmd example_world cmdline_identity_only) = None
   \<and> hd (snd (sign_cmd example_world cmdline_identity_only))
       = EStat ''/Applications/Xcode.app/Contents/Resources/CoreDeviceDDIs/iOS_DDI.dmg''
   \<and> arg_xcode cmdline_nothing = None \<and> arg_manifest cmdline_nothing = None
   \<and> nonce (init cmdline_nothing) = ''''
   \<and> snd (sign_cmd example_world cmdline_nothing) = []
   \<and> arg_xcode cmdline_empty_xcode = Some '''' \<and> arg_manifest cmdline_empty_xcode = None
   \<and> fst (sign_cmd example_world cmdline_empty_xcode)
       = Some (ErrorString ''must specify either --xcode or --manifest'')"
proof -
  have a: "arg_xcode cmdline_identity_only = None \<and> arg_manifest cmdline_identity_only = None"
    by (simp add: cmdline_identity_only_def)
  have i: "boardID (init cmdline_identity_only) \<noteq> 0 \<and> chipID (init cmdline_identity_only) \<noteq> 0
      \<and> ecid (init cmdline_identity_only) \<noteq> 0 \<and> nonce (init cmdline_identity_only) \<noteq> ''''"
    by (simp add: cmdline_identity_only_def init_def flag_value_def)
  have n: "arg_xcode cmdline_nothing = None \<and> arg_manifest cmdline_nothing = None"
    and n': "nonce (init cmdline_nothing) = ''''"
    by (simp_all add: cmdline_nothing_def init_def flag_value_def)
  have b: "arg_xcode cmdline_empty_xcode = Some '''' \<and> arg_manifest cmdline_empty_xcode = None"
    by (simp add: cmdline_empty_xcode_def cmdline_identity_only_def)
  have ok: "fst (sign_cmd example_world cmdline_identity_only) = None"
    by (simp add: sign_cmd_def init_def flag_value_def cmdline_identity_only_def run_defs
          example_world_def example_Join_def errors_Is_ErrNotExist_def dmgPath_of_def
          personal_config_def mode_0644_def mode_0750_def Let_def)
  have j: "filepath_Join example_world ''/Applications/Xcode.app''
                        ''/Contents/Resources/CoreDeviceDDIs/iOS_DDI.dmg''
           = ''/Applications/Xcode.app/Contents/Resources/CoreDeviceDDIs/iOS_DDI.dmg''"
    by (simp add: example_world_def example_Join_def)
  from default_xcode_hides_missing_source_error [of cmdline_identity_only example_world] a i
  have "hd (snd (sign_cmd example_world cmdline_identity_only))
         = EStat (filepath_Join example_world ''/Applications/Xcode.app''
                        ''/Contents/Resources/CoreDeviceDDIs/iOS_DDI.dmg'')"
    by blast
  then have h: "hd (snd (sign_cmd example_world cmdline_identity_only))
       = EStat ''/Applications/Xcode.app/Contents/Resources/CoreDeviceDDIs/iOS_DDI.dmg''"
    by (simp only: j)
  from default_xcode_hides_missing_source_error [of cmdline_nothing example_world] n n'
  have "sign_cmd example_world cmdline_nothing
           = (Some (ErrorString ''must specify --board-id, --chip-id, --ecid AND --nonce''), [])"
    by blast
  then have e0: "snd (sign_cmd example_world cmdline_nothing) = []" by simp
  from default_xcode_hides_missing_source_error [of cmdline_empty_xcode example_world] b
  have e: "fst (sign_cmd example_world cmdline_empty_xcode)
       = Some (ErrorString ''must specify either --xcode or --manifest'')"
    by blast
  from a ok h n n' e0 b e show ?thesis by blast
qed

subsection \<open>The name and the place of the signature file\<close>

lemma digit_char_cases:
  assumes "d < 10"
  shows "digit_val (digit_char d) = d" and "is_digit (digit_char d)"
proof -
  from assms have "d \<in> {0, 1, 2, 3, 4, 5, 6, 7, 8, 9}" by auto
  then show "digit_val (digit_char d) = d" and "is_digit (digit_char d)"
    by (auto simp: digit_val_def digit_char_def is_digit_def)
qed

lemma decimal_value_snoc:
  "decimal_value (s @ [c]) = 10 * decimal_value s + digit_val c"
  by (simp add: decimal_value_def)

lemma decimal_value_fmt_d_nat: "decimal_value (fmt_d_nat n) = n"
proof (induction n rule: fmt_d_nat.induct)
  case (1 u)
  show ?case
  proof (cases "u < 10")
    case True
    then show ?thesis
      by (simp add: fmt_d_nat.simps [of u] decimal_value_def digit_char_cases)
  next
    case False
    with 1 have "decimal_value (fmt_d_nat (u div 10)) = u div 10" by simp
    with False show ?thesis
      by (simp add: fmt_d_nat.simps [of u] decimal_value_snoc digit_char_cases)
  qed
qed

lemma fmt_d_nat_digits: "ch \<in> set (fmt_d_nat n) \<Longrightarrow> is_digit ch"
proof (induction n rule: fmt_d_nat.induct)
  case (1 u)
  show ?case
  proof (cases "u < 10")
    case True
    with 1(2) show ?thesis
      by (simp add: fmt_d_nat.simps [of u] digit_char_cases)
  next
    case False
    with 1 show ?thesis
      by (auto simp: fmt_d_nat.simps [of u] digit_char_cases)
  qed
qed

lemma fmt_d_nat_not_Nil: "fmt_d_nat n \<noteq> []"
  by (simp add: fmt_d_nat.simps [of n])

lemma fmt_d_nat_zero: "fmt_d_nat n = ''0'' \<Longrightarrow> n = 0"
  using decimal_value_fmt_d_nat [of n] by (simp add: decimal_value_def digit_val_def)

lemma fmt_d_nat_no_leading_zero: "hd (fmt_d_nat n) = CHR ''0'' \<Longrightarrow> fmt_d_nat n = ''0''"
proof (induction n rule: fmt_d_nat.induct)
  case (1 u)
  show ?case
  proof (cases "u < 10")
    case True
    then have "u \<in> {0, 1, 2, 3, 4, 5, 6, 7, 8, 9}" by auto
    with 1(2) show ?thesis
      by (auto simp: fmt_d_nat.simps [of u] digit_char_def)
  next
    case False
    with 1(2) have "hd (fmt_d_nat (u div 10)) = CHR ''0''"
      by (simp add: fmt_d_nat.simps [of u] fmt_d_nat_not_Nil)
    with 1(1) False have "fmt_d_nat (u div 10) = ''0''" by simp
    then have "u div 10 = 0" by (rule fmt_d_nat_zero)
    with False show ?thesis by simp
  qed
qed

lemma signature_fname_100_200_300:
  "signature_fname 100 200 300 = ''100.200.300.personalized.signature''"
  by (simp add: signature_fname_def fmt_d_def fmt_d_nat.simps digit_char_def)

lemma write_is_not_release: "is_write e \<Longrightarrow> \<not> is_release_event e"
  by (cases e) simp_all

lemma preceded_by_none: "\<forall>e\<in>set es. \<not> P e \<Longrightarrow> preceded_by x P es"
  by (induction es) simp_all

lemma preceded_by_append:
  "preceded_by x P es \<Longrightarrow> \<forall>e\<in>set es'. \<not> P e \<Longrightarrow> preceded_by x P (es @ es')"
  by (induction es) (auto simp: preceded_by_none)

lemma release_mount_no_write: "\<forall>e\<in>set (release_mount w d mp). \<not> is_write e"
  by (simp add: release_mount_cases split: option.splits)

lemma sign_manifest_writes:
  "EWriteFile path d m \<in> set (snd (sign_manifest w f p)) \<Longrightarrow> path = signature_path w f"
  by (auto simp: sign_manifest_def write_signature_def write_file_def after_def Let_def
        signature_path_def split: sum.splits option.splits if_splits)

lemma sign_manifest_success_writes:
  "fst (sign_manifest w f p) = None \<Longrightarrow>
     \<exists>d. EWriteFile (signature_path w f) d mode_0644 \<in> set (snd (sign_manifest w f p))"
  by (auto simp: sign_manifest_def write_signature_def write_file_def after_def Let_def
        signature_path_def split: sum.splits option.splits if_splits)

lemma sign_manifest_mkdir_first:
  "output f \<noteq> '''' \<Longrightarrow>
     preceded_by (EMkdirAll (output f) mode_0750) is_write (snd (sign_manifest w f p))"
  by (simp add: sign_manifest_def write_signature_def write_file_def after_def Let_def
        split: sum.splits option.splits)


lemma release_mount_no_EWriteFile: "EWriteFile path d m \<notin> set (release_mount w dmg mp)"
  using release_mount_no_write [of w dmg mp] by force

lemma RunE_writes:
  "EWriteFile path d m \<in> set (snd (RunE w f)) \<Longrightarrow> path = signature_path w f"
  using RunE_cases [of w f] sign_manifest_writes [of path d m w f]
    release_mount_no_EWriteFile [of path d m w]
  by (elim disjE exE conjE) auto

lemma RunE_success_writes:
  "fst (RunE w f) = None \<Longrightarrow>
     \<exists>d. EWriteFile (signature_path w f) d mode_0644 \<in> set (snd (RunE w f))"
  using RunE_cases [of w f] sign_manifest_success_writes [of w f]
  by (elim disjE exE conjE) auto

lemma RunE_mkdir_first:
  assumes "output f \<noteq> ''''"
  shows "preceded_by (EMkdirAll (output f) mode_0750) is_write (snd (RunE w f))"
  using RunE_cases [of w f] sign_manifest_mkdir_first [OF assms, of w]
    release_mount_no_write [of w]
  by (elim disjE exE conjE) (auto simp: preceded_by_append)

text \<open>
  C6. The file name is the \<open>%d\<close> renderings of board id, chip id and ecid joined by dots
  and followed by \<open>.personalized.signature\<close>; a \<open>%d\<close> rendering is the decimal numeral of
  the value: digits only, no leading zero, and read back in base ten it gives the value.
  For 100, 200, 300 the name is \<open>100.200.300.personalized.signature\<close>. The path written
  is this name, or \<open>filepath.Join\<close> of the output folder and this name when an output
  folder is given: every \<open>os.WriteFile\<close> of a run is at that path, a run that succeeds
  has written there, and with an output folder no write happens before
  \<open>os.MkdirAll\<close> was called on the folder with mode 0750.
\<close>

theorem signature_named_and_placed:
  "signature_fname b c e = fmt_d b @ ''.'' @ fmt_d c @ ''.'' @ fmt_d e @ ''.personalized.signature''
   \<and> decimal_value (fmt_d u) = unat u
   \<and> (\<forall>ch\<in>set (fmt_d u). is_digit ch)
   \<and> (hd (fmt_d u) = CHR ''0'' \<longrightarrow> fmt_d u = ''0'')
   \<and> signature_fname 100 200 300 = ''100.200.300.personalized.signature''
   \<and> signature_path w f =
         (if output f = '''' then signature_fname (boardID f) (chipID f) (ecid f)
          else filepath_Join w (output f) (signature_fname (boardID f) (chipID f) (ecid f)))
   \<and> (\<forall>path d m. EWriteFile path d m \<in> set (snd (RunE w f)) \<longrightarrow> path = signature_path w f)
   \<and> (fst (RunE w f) = None \<longrightarrow>
         (\<exists>d. EWriteFile (signature_path w f) d mode_0644 \<in> set (snd (RunE w f))))
   \<and> (output f \<noteq> '''' \<longrightarrow>
         preceded_by (EMkdirAll (output f) mode_0750) is_write (snd (RunE w f)))"
proof (intro conjI allI impI ballI)
  show "signature_fname b c e
          = fmt_d b @ ''.'' @ fmt_d c @ ''.'' @ fmt_d e @ ''.personalized.signature''"
    by (simp add: signature_fname_def)
  show "decimal_value (fmt_d u) = unat u"
    by (simp add: fmt_d_def decimal_value_fmt_d_nat)
  show "is_digit ch" if "ch \<in> set (fmt_d u)" for ch
    using that by (simp add: fmt_d_def fmt_d_nat_digits)
  show "fmt_d u = ''0''" if "hd (fmt_d u) = CHR ''0''"
    using that by (simp add: fmt_d_def fmt_d_nat_no_leading_zero)
  show "signature_fname 100 200 300 = ''100.200.300.personalized.signature''"
    by (rule signature_fname_100_200_300)
  show "signature_path w f =
         (if output f = '''' then signature_fname (boardID f) (chipID f) (ecid f)
          else filepath_Join w (output f) (signature_fname (boardID f) (chipID f) (ecid f)))"
    by (simp add: signature_path_def)
  show "path = signature_path w f"
    if "EWriteFile path d m \<in> set (snd (RunE w f))" for path d m
    using that by (rule RunE_writes)
  show "\<exists>d. EWriteFile (signature_path w f) d mode_0644 \<in> set (snd (RunE w f))"
    if "fst (RunE w f) = None"
    using that by (rule RunE_success_writes)
  show "preceded_by (EMkdirAll (output f) mode_0750) is_write (snd (RunE w f))"
    if "output f \<noteq> ''''"
    using that by (rule RunE_mkdir_first)
qed

theorem signature_named_and_placed_witness:
  "output example_flags \<noteq> '''' \<and> fst (RunE example_world example_flags) = None
   \<and> fmt_d 100 = ''100'' \<and> hd (fmt_d 0) = CHR ''0'' \<and> fmt_d 0 = ''0''
   \<and> EWriteFile ''out/100.200.300.personalized.signature'' [170, 187] mode_0644
        \<in> set (snd (RunE example_world example_flags))
   \<and> signature_path example_world example_flags = ''out/100.200.300.personalized.signature''
   \<and> preceded_by (EMkdirAll ''out'' mode_0750) is_write (snd (RunE example_world example_flags))"
proof -
  have o: "output example_flags \<noteq> ''''" and o': "output example_flags = ''out''"
    by (simp_all add: example_flags_def)
  have ok: "fst (RunE example_world example_flags) = None"
    by (simp add: run_defs example_defs)
  have wr: "EWriteFile ''out/100.200.300.personalized.signature'' [170, 187] mode_0644
        \<in> set (snd (RunE example_world example_flags))"
    by (simp add: run_defs example_defs)
  have d: "fmt_d 100 = ''100''" "hd (fmt_d 0) = CHR ''0''"
    by (simp_all add: fmt_d_def fmt_d_nat.simps digit_char_def)
  note T = signature_named_and_placed [of 100 200 300 0 example_world example_flags]
  from T d(2) have z: "fmt_d 0 = ''0''" by blast
  from T o have "preceded_by (EMkdirAll (output example_flags) mode_0750) is_write
                   (snd (RunE example_world example_flags))" by blast
  then have p: "preceded_by (EMkdirAll ''out'' mode_0750) is_write
                   (snd (RunE example_world example_flags))" by (simp only: o')
  from T have "\<forall>path d m. EWriteFile path d m \<in> set (snd (RunE example_world example_flags))
                   \<longrightarrow> path = signature_path example_world example_flags"
    by blast
  then have "''out/100.200.300.personalized.signature''
               = signature_path example_world example_flags"
    using wr by (elim allE impE)
  then have sp: "signature_path example_world example_flags
                         = ''out/100.200.300.personalized.signature''"
    by (rule sym)
  from o ok d z wr sp p show ?thesis by blast
qed

subsection \<open>The request\<close>

lemma release_mount_events:
  "EPersonalize config \<notin> set (release_mount w dmg mp)"
  "EParseBuildManifest manifestData \<notin> set (release_mount w dmg mp)"
  "EReadFile p \<notin> set (release_mount w dmg mp)"
  by (simp_all add: release_mount_cases split: option.splits)

lemma sign_manifest_requests:
  "EPersonalize config \<in> set (snd (sign_manifest w f p)) \<Longrightarrow> \<exists>bm. config = personal_config f bm"
  by (auto simp: sign_manifest_def write_signature_def write_file_def after_def Let_def
        split: sum.splits option.splits if_splits)

lemma sign_manifest_parsed_is_sent:
  "EParseBuildManifest manifestData \<in> set (snd (sign_manifest w f p)) \<Longrightarrow>
   plist_ParseBuildManifest w manifestData = Inr bm \<Longrightarrow>
   EPersonalize (personal_config f bm) \<in> set (snd (sign_manifest w f p))"
  by (auto simp: sign_manifest_def write_signature_def write_file_def after_def Let_def
        split: sum.splits option.splits if_splits)

lemma RunE_requests:
  "EPersonalize config \<in> set (snd (RunE w f)) \<Longrightarrow> \<exists>bm. config = personal_config f bm"
  using RunE_cases [of w f] sign_manifest_requests [of config w f]
    release_mount_events(1) [of config w]
  by (elim disjE exE conjE) auto

lemma RunE_parsed_is_sent:
  "EParseBuildManifest manifestData \<in> set (snd (RunE w f)) \<Longrightarrow>
   plist_ParseBuildManifest w manifestData = Inr bm \<Longrightarrow>
   EPersonalize (personal_config f bm) \<in> set (snd (RunE w f))"
  using RunE_cases [of w f] sign_manifest_parsed_is_sent [of manifestData w f _ bm]
    release_mount_events(2) [of manifestData w]
  by (elim disjE exE conjE) auto

text \<open>
  C7. The identity map of the request has exactly the three keys \<open>BoardId\<close>, \<open>ChipID\<close>
  and \<open>UniqueChipID\<close>, mapped to the board id, the chip id and the ecid as unsigned
  64-bit integers. Every request a run sends to \<open>tss.Personalize\<close> is built this way,
  and building it cannot fail: whenever a manifest was parsed successfully, the request
  built from it is sent.
\<close>

theorem request_identity_has_three_integer_keys:
  "dom (PersonlID (personal_config f buildManifest)) = {''BoardId'', ''ChipID'', ''UniqueChipID''}
   \<and> card (dom (PersonlID (personal_config f buildManifest))) = 3
   \<and> PersonlID (personal_config f buildManifest) ''BoardId'' = Some (Uint64 (boardID f))
   \<and> PersonlID (personal_config f buildManifest) ''ChipID'' = Some (Uint64 (chipID f))
   \<and> PersonlID (personal_config f buildManifest) ''UniqueChipID'' = Some (Uint64 (ecid f))
   \<and> (\<forall>config. EPersonalize config \<in> set (snd (RunE w f)) \<longrightarrow>
         (\<exists>bm. config = personal_config f bm))
   \<and> (\<forall>manifestData bm. EParseBuildManifest manifestData \<in> set (snd (RunE w f))
         \<and> plist_ParseBuildManifest w manifestData = Inr bm \<longrightarrow>
         EPersonalize (personal_config f bm) \<in> set (snd (RunE w f)))"
proof (intro conjI allI impI)
  show d: "dom (PersonlID (personal_config f buildManifest))
          = {''BoardId'', ''ChipID'', ''UniqueChipID''}"
    by (auto simp: personal_config_def)
  show "card (dom (PersonlID (personal_config f buildManifest))) = 3"
    by (simp add: d)
  show "PersonlID (personal_config f buildManifest) ''BoardId'' = Some (Uint64 (boardID f))"
    and "PersonlID (personal_config f buildManifest) ''ChipID'' = Some (Uint64 (chipID f))"
    and "PersonlID (personal_config f buildManifest) ''UniqueChipID'' = Some (Uint64 (ecid f))"
    by (simp_all add: personal_config_def)
  show "\<exists>bm. config = personal_config f bm"
    if "EPersonalize config \<in> set (snd (RunE w f))" for config
    using that by (rule RunE_requests)
  show "EPersonalize (personal_config f bm) \<in> set (snd (RunE w f))"
    if "EParseBuildManifest manifestData \<in> set (snd (RunE w f))
         \<and> plist_ParseBuildManifest w manifestData = Inr bm" for manifestData bm
  proof -
    from that have "EParseBuildManifest manifestData \<in> set (snd (RunE w f))"
      and "plist_ParseBuildManifest w manifestData = Inr bm" by simp_all
    then show ?thesis by (rule RunE_parsed_is_sent)
  qed
qed

theorem request_identity_has_three_integer_keys_witness:
  "EParseBuildManifest [1, 2, 3] \<in> set (snd (RunE example_world example_flags))
   \<and> plist_ParseBuildManifest example_world [1, 2, 3] = Inr ''manifest''
   \<and> EPersonalize (personal_config example_flags ''manifest'')
        \<in> set (snd (RunE example_world example_flags))
   \<and> PersonlID (personal_config example_flags ''manifest'') ''BoardId'' = Some (Uint64 100)
   \<and> PersonlID (personal_config example_flags ''manifest'') ''ChipID'' = Some (Uint64 200)
   \<and> PersonlID (personal_config example_flags ''manifest'') ''UniqueChipID'' = Some (Uint64 300)
   \<and> PersonlID (personal_config example_flags ''manifest'') ''ApNonce'' = None"
proof -
  have p: "EParseBuildManifest [1, 2, 3] \<in> set (snd (RunE example_world example_flags))"
    by (simp add: run_defs example_defs)
  have q: "plist_ParseBuildManifest example_world [1, 2, 3] = Inr ''manifest''"
    by (simp add: example_world_def)
  have n: "PersonlID (personal_config example_flags ''manifest'') ''ApNonce'' = None"
    by (simp add: personal_config_def)
  have v: "boardID example_flags = 100" "chipID example_flags = 200" "ecid example_flags = 300"
    by (simp_all add: example_flags_def)
  note T = request_identity_has_three_integer_keys [of example_flags "''manifest''" example_world]
  from T p q have s: "EPersonalize (personal_config example_flags ''manifest'')
        \<in> set (snd (RunE example_world example_flags))" by blast
  from T have "PersonlID (personal_config example_flags ''manifest'') ''BoardId''
                 = Some (Uint64 (boardID example_flags))"
    and "PersonlID (personal_config example_flags ''manifest'') ''ChipID''
                 = Some (Uint64 (chipID example_flags))"
    and "PersonlID (personal_config example_flags ''manifest'') ''UniqueChipID''
                 = Some (Uint64 (ecid example_flags))"
    by blast+
  then have k: "PersonlID (personal_config example_flags ''manifest'') ''BoardId'' = Some (Uint64 100)"
    "PersonlID (personal_config example_flags ''manifest'') ''ChipID'' = Some (Uint64 200)"
    "PersonlID (personal_config example_flags ''manifest'') ''UniqueChipID'' = Some (Uint64 300)"
    by (simp_all only: v)
  from p q s k n show ?thesis by blast
qed

subsection \<open>Finding the image and the manifest\<close>

lemma sign_manifest_reads:
  "EReadFile p' \<in> set (snd (sign_manifest w f p)) \<longleftrightarrow> p' = p"
  by (auto simp: sign_manifest_def write_signature_def write_file_def after_def Let_def
        split: sum.splits option.splits if_splits)

lemma sign_manifest_not_ErrorString: "fst (sign_manifest w f p) \<noteq> Some (ErrorString s)"
  by (simp add: sign_manifest_def write_signature_def write_file_def after_def Let_def
        split: sum.splits option.splits)

text \<open>
  C8, as stated, fails: "absent" is wider than what line 97 tests. With
  \<open>--xcode /etc/hosts\<close> no image is under the root, the stat fails with \<open>ENOTDIR\<close>, which is
  not \<open>os.ErrNotExist\<close> to \<open>errors.Is\<close>, and the command goes on to mount: the mount is
  attempted and the error returned is the mount's, not the one that tells the user to
  install Xcode.
\<close>

theorem absent_image_counterexample:
  "os_Stat world_xcode_is_file ''/etc/hosts/Contents/Resources/CoreDeviceDDIs/iOS_DDI.dmg''
     = Some (PathError ''stat'' ''/etc/hosts/Contents/Resources/CoreDeviceDDIs/iOS_DDI.dmg'' ENOTDIR)
   \<and> \<not> errors_Is_ErrNotExist
         (os_Stat world_xcode_is_file ''/etc/hosts/Contents/Resources/CoreDeviceDDIs/iOS_DDI.dmg'')
   \<and> RunE world_xcode_is_file flags_xcode_is_file =
       (Some (WrapError ''failed to mount iOS_DDI.dmg: exit status 1'' (ErrorString ''exit status 1'')),
        [EStat ''/etc/hosts/Contents/Resources/CoreDeviceDDIs/iOS_DDI.dmg'',
         ELogIndent InfoLevel 2 ''Mounting /etc/hosts/Contents/Resources/CoreDeviceDDIs/iOS_DDI.dmg'',
         EMountDMG ''/etc/hosts/Contents/Resources/CoreDeviceDDIs/iOS_DDI.dmg''])
   \<and> filter is_mount (snd (RunE world_xcode_is_file flags_xcode_is_file))
       = [EMountDMG ''/etc/hosts/Contents/Resources/CoreDeviceDDIs/iOS_DDI.dmg'']"
  by (simp add: world_xcode_is_file_def flags_xcode_is_file_def run_defs example_defs)

text \<open>
  C8, amended. On the xcode branch, with \<open>dmgPath\<close> the fixed path
  \<open>/Contents/Resources/CoreDeviceDDIs/iOS_DDI.dmg\<close> joined to the xcode path: when
  \<open>os.Stat\<close> fails with an error that is \<open>os.ErrNotExist\<close> to \<open>errors.Is\<close>, the command
  returns the error that tells the user to install a new Xcode, after the stat alone (no
  mount is attempted). On every other answer of the stat, another error included, the
  mount is attempted and that error is not returned; once the image is mounted at
  \<open>mountPoint\<close>, the manifest is read at \<open>Restore/BuildManifest.plist\<close> joined to
  \<open>mountPoint\<close>, and nowhere else.
\<close>

theorem absent_image_or_manifest_under_mount:
  assumes "xcode f \<noteq> ''''" and "manifestPath f = ''''"
    and "boardID f \<noteq> 0" and "chipID f \<noteq> 0" and "ecid f \<noteq> 0" and "nonce f \<noteq> ''''"
    and "dmgPath = filepath_Join w (xcode f) ''/Contents/Resources/CoreDeviceDDIs/iOS_DDI.dmg''"
  shows "(errors_Is_ErrNotExist (os_Stat w dmgPath) \<longrightarrow>
            RunE w f =
              (Some (ErrorString (''failed to find iOS_DDI.dmg in '' @ [CHR 0x27] @ xcode f @ [CHR 0x27]
                                   @ '' (install NEW XCode.app or Xcode-beta.app)'')),
               [EStat dmgPath])
            \<and> filter is_mount (snd (RunE w f)) = [])
       \<and> (\<not> errors_Is_ErrNotExist (os_Stat w dmgPath) \<longrightarrow>
            EMountDMG dmgPath \<in> set (snd (RunE w f))
            \<and> fst (RunE w f) \<noteq>
                Some (ErrorString (''failed to find iOS_DDI.dmg in '' @ [CHR 0x27] @ xcode f @ [CHR 0x27]
                                   @ '' (install NEW XCode.app or Xcode-beta.app)'')))
       \<and> (\<not> errors_Is_ErrNotExist (os_Stat w dmgPath)
            \<and> utils_MountDMG w dmgPath = Inr (mountPoint, alreadyMounted) \<longrightarrow>
            EMountDMG dmgPath \<in> set (snd (RunE w f))
            \<and> EReadFile (filepath_Join w mountPoint ''Restore/BuildManifest.plist'')
                 \<in> set (snd (RunE w f))
            \<and> (\<forall>p. EReadFile p \<in> set (snd (RunE w f)) \<longrightarrow>
                  p = filepath_Join w mountPoint ''Restore/BuildManifest.plist''))"
proof (intro conjI impI)
  assume absent: "errors_Is_ErrNotExist (os_Stat w dmgPath)"
  with assms show run: "RunE w f =
              (Some (ErrorString (''failed to find iOS_DDI.dmg in '' @ [CHR 0x27] @ xcode f @ [CHR 0x27]
                                   @ '' (install NEW XCode.app or Xcode-beta.app)'')),
               [EStat dmgPath])"
    by (simp add: RunE_def xcode_branch_def dmgPath_of_def after_def Let_def)
  show "filter is_mount (snd (RunE w f)) = []"
    by (simp add: run)
next
  assume other: "\<not> errors_Is_ErrNotExist (os_Stat w dmgPath)"
  with assms show "EMountDMG dmgPath \<in> set (snd (RunE w f))"
    by (simp add: RunE_def xcode_branch_def dmgPath_of_def after_def with_defer_def Let_def
          split: sum.splits)
  from assms other sign_manifest_not_ErrorString [of w f]
  show "fst (RunE w f) \<noteq>
                Some (ErrorString (''failed to find iOS_DDI.dmg in '' @ [CHR 0x27] @ xcode f @ [CHR 0x27]
                                   @ '' (install NEW XCode.app or Xcode-beta.app)''))"
    by (simp add: RunE_def xcode_branch_def dmgPath_of_def after_def with_defer_def Let_def
          split: sum.splits)
next
  assume "\<not> errors_Is_ErrNotExist (os_Stat w dmgPath)
            \<and> utils_MountDMG w dmgPath = Inr (mountPoint, alreadyMounted)"
  with assms have run: "snd (RunE w f) =
      [EStat dmgPath, ELogIndent InfoLevel 2 (''Mounting '' @ dmgPath), EMountDMG dmgPath]
      @ (if alreadyMounted then [ELogIndent InfoLevel 3 (dmgPath @ '' already mounted'')] else [])
      @ snd (sign_manifest w f (filepath_Join w mountPoint ''Restore/BuildManifest.plist''))
      @ (if alreadyMounted then [] else release_mount w dmgPath mountPoint)"
    by (simp add: RunE_def xcode_branch_def dmgPath_of_def after_def with_defer_def Let_def)
  show "EMountDMG dmgPath \<in> set (snd (RunE w f))"
    by (simp add: run)
  show "EReadFile (filepath_Join w mountPoint ''Restore/BuildManifest.plist'')
                 \<in> set (snd (RunE w f))"
    by (simp add: run sign_manifest_reads)
  show "\<forall>p. EReadFile p \<in> set (snd (RunE w f)) \<longrightarrow>
                  p = filepath_Join w mountPoint ''Restore/BuildManifest.plist''"
    by (simp add: run sign_manifest_reads release_mount_events)
qed

theorem absent_image_or_manifest_under_mount_witness:
  "errors_Is_ErrNotExist (os_Stat world_image_absent
      ''/Applications/Xcode.app/Contents/Resources/CoreDeviceDDIs/iOS_DDI.dmg'')
   \<and> RunE world_image_absent example_flags =
        (Some (ErrorString
           ''failed to find iOS_DDI.dmg in '/Applications/Xcode.app' (install NEW XCode.app or Xcode-beta.app)''),
         [EStat ''/Applications/Xcode.app/Contents/Resources/CoreDeviceDDIs/iOS_DDI.dmg''])
   \<and> \<not> errors_Is_ErrNotExist (os_Stat example_world
      ''/Applications/Xcode.app/Contents/Resources/CoreDeviceDDIs/iOS_DDI.dmg'')
   \<and> utils_MountDMG example_world
        ''/Applications/Xcode.app/Contents/Resources/CoreDeviceDDIs/iOS_DDI.dmg''
        = Inr (''/Volumes/iOS_DDI'', False)
   \<and> EMountDMG ''/Applications/Xcode.app/Contents/Resources/CoreDeviceDDIs/iOS_DDI.dmg''
        \<in> set (snd (RunE example_world example_flags))
   \<and> EReadFile ''/Volumes/iOS_DDI/Restore/BuildManifest.plist''
        \<in> set (snd (RunE example_world example_flags))"
proof -
  let ?dmg = "''/Applications/Xcode.app/Contents/Resources/CoreDeviceDDIs/iOS_DDI.dmg''"
  have v: "xcode example_flags \<noteq> ''''" "manifestPath example_flags = ''''"
    "boardID example_flags \<noteq> 0" "chipID example_flags \<noteq> 0" "ecid example_flags \<noteq> 0"
    "nonce example_flags \<noteq> ''''"
    by (simp_all add: example_flags_def)
  have x: "xcode example_flags = ''/Applications/Xcode.app''"
    by (simp add: example_flags_def)
  have d1: "?dmg = filepath_Join world_image_absent (xcode example_flags)
                     ''/Contents/Resources/CoreDeviceDDIs/iOS_DDI.dmg''"
    by (simp add: world_image_absent_def example_defs)
  have d2: "?dmg = filepath_Join example_world (xcode example_flags)
                     ''/Contents/Resources/CoreDeviceDDIs/iOS_DDI.dmg''"
    by (simp add: example_defs)
  have j: "filepath_Join example_world ''/Volumes/iOS_DDI'' ''Restore/BuildManifest.plist''
             = ''/Volumes/iOS_DDI/Restore/BuildManifest.plist''"
    by (simp add: example_defs)
  have a: "errors_Is_ErrNotExist (os_Stat world_image_absent ?dmg)"
    by (simp add: world_image_absent_def example_defs)
  have p: "\<not> errors_Is_ErrNotExist (os_Stat example_world ?dmg)"
    by (simp add: example_defs)
  have m: "utils_MountDMG example_world ?dmg = Inr (''/Volumes/iOS_DDI'', False)"
    by (simp add: example_defs)
  from absent_image_or_manifest_under_mount [OF v d1] a
  have "RunE world_image_absent example_flags =
              (Some (ErrorString (''failed to find iOS_DDI.dmg in '' @ [CHR 0x27] @ xcode example_flags
                                   @ [CHR 0x27] @ '' (install NEW XCode.app or Xcode-beta.app)'')),
               [EStat ?dmg])"
    by blast
  then have r1: "RunE world_image_absent example_flags =
        (Some (ErrorString
           ''failed to find iOS_DDI.dmg in '/Applications/Xcode.app' (install NEW XCode.app or Xcode-beta.app)''),
         [EStat ?dmg])"
    by (simp add: x)
  note T = absent_image_or_manifest_under_mount [OF v d2, of "''/Volumes/iOS_DDI''" False]
  from T p have r3: "EMountDMG ?dmg \<in> set (snd (RunE example_world example_flags))"
    by blast
  from T p m
  have "EReadFile (filepath_Join example_world ''/Volumes/iOS_DDI'' ''Restore/BuildManifest.plist'')
        \<in> set (snd (RunE example_world example_flags))"
    by blast
  then have r2: "EReadFile ''/Volumes/iOS_DDI/Restore/BuildManifest.plist''
        \<in> set (snd (RunE example_world example_flags))"
    by (simp only: j)
  from a r1 p m r3 r2 show ?thesis by blast
qed

subsection \<open>The error of a failed write\<close>

lemma error_names_write:
  "error_names (WrapError (''failed to write signature to '' @ out @ '': ''
                            @ Error (PathError op path cause)) (PathError op path cause)) path"
proof -
  have "''failed to write signature to '' @ out @ '': '' @ Error (PathError op path cause)
        = (''failed to write signature to '' @ out @ '': '' @ op @ '' '') @ path
          @ ('': '' @ Error cause)"
    by (simp add: PathError_def)
  then show ?thesis
    by (simp only: error_names_def Error.simps sublist_appendI)
qed

lemma error_names_mkdir:
  "error_names (WrapError (''failed to create output folder '' @ [CHR 0x27] @ out
                                  @ [CHR 0x27] @ '': '' @ Error err) err) out"
proof -
  have "''failed to create output folder '' @ [CHR 0x27] @ out @ [CHR 0x27] @ '': '' @ Error err
        = (''failed to create output folder '' @ [CHR 0x27]) @ out @ ([CHR 0x27] @ '': '' @ Error err)"
    by simp
  then show ?thesis
    by (simp only: error_names_def Error.simps sublist_appendI)
qed

lemma sign_manifest_write_fails:
  "EWriteFile path d m \<in> set (snd (sign_manifest w f p)) \<Longrightarrow>
   os_WriteFile w path d m = Some err \<Longrightarrow>
   fst (sign_manifest w f p)
     = Some (WrapError (''failed to write signature to '' @ output f @ '': '' @ Error err) err)"
  by (auto simp: sign_manifest_def write_signature_def write_file_def after_def Let_def
        split: sum.splits option.splits if_splits)

lemma sign_manifest_mkdir_fails:
  "EMkdirAll dir m \<in> set (snd (sign_manifest w f p)) \<Longrightarrow>
   os_MkdirAll w dir m = Some err \<Longrightarrow>
   dir = output f \<and>
   fst (sign_manifest w f p)
     = Some (WrapError (''failed to create output folder '' @ [CHR 0x27] @ output f
                                  @ [CHR 0x27] @ '': '' @ Error err) err)"
  by (auto simp: sign_manifest_def write_signature_def write_file_def after_def Let_def
        split: sum.splits option.splits if_splits)

lemma release_mount_no_EMkdirAll: "EMkdirAll dir m \<notin> set (release_mount w dmg mp)"
  by (simp add: release_mount_cases split: option.splits)

lemma RunE_write_fails:
  "EWriteFile path d m \<in> set (snd (RunE w f)) \<Longrightarrow>
   os_WriteFile w path d m = Some err \<Longrightarrow>
   fst (RunE w f)
     = Some (WrapError (''failed to write signature to '' @ output f @ '': '' @ Error err) err)"
  using RunE_cases [of w f] sign_manifest_write_fails [of path d m w f _ err]
    release_mount_no_EWriteFile [of path d m w]
  by (elim disjE exE conjE) auto

lemma RunE_mkdir_fails:
  "EMkdirAll dir m \<in> set (snd (RunE w f)) \<Longrightarrow>
   os_MkdirAll w dir m = Some err \<Longrightarrow>
   dir = output f \<and>
   fst (RunE w f)
     = Some (WrapError (''failed to create output folder '' @ [CHR 0x27] @ output f
                                  @ [CHR 0x27] @ '': '' @ Error err) err)"
  using RunE_cases [of w f] sign_manifest_mkdir_fails [of dir m w f _ err]
    release_mount_no_EMkdirAll [of dir m w]
  by (elim disjE exE conjE) auto

text \<open>
  C9. When \<open>os.MkdirAll\<close> fails, the error returned is the one of line 147, whose message
  contains the output folder. When \<open>os.WriteFile\<close> fails with a \<open>*fs.PathError\<close> for the
  path it was given, as package \<open>os\<close> reports the failures of a file operation, the path
  is the one of line 152 and the error returned is the one of line 154, whose message
  contains that path: line 154 itself formats \<open>output\<close>, and the wrapped error brings the
  full path of the file.
\<close>

theorem write_failure_names_attempted_path:
  "(EMkdirAll dir mode \<in> set (snd (RunE w f)) \<and> os_MkdirAll w dir mode = Some err \<longrightarrow>
      dir = output f
      \<and> fst (RunE w f)
          = Some (WrapError (''failed to create output folder '' @ [CHR 0x27] @ output f
                               @ [CHR 0x27] @ '': '' @ Error err) err)
      \<and> (\<exists>e. fst (RunE w f) = Some e \<and> error_names e dir))
   \<and> (EWriteFile path sigData mode' \<in> set (snd (RunE w f))
        \<and> os_WriteFile w path sigData mode' = Some (PathError op path cause) \<longrightarrow>
      path = signature_path w f
      \<and> fst (RunE w f)
          = Some (WrapError (''failed to write signature to '' @ output f @ '': ''
                               @ op @ '' '' @ path @ '': '' @ Error cause)
                    (PathError op path cause))
      \<and> (\<exists>e. fst (RunE w f) = Some e \<and> error_names e path))"
proof (intro conjI impI)
  assume a: "EMkdirAll dir mode \<in> set (snd (RunE w f)) \<and> os_MkdirAll w dir mode = Some err"
  then have r: "dir = output f \<and> fst (RunE w f)
          = Some (WrapError (''failed to create output folder '' @ [CHR 0x27] @ output f
                               @ [CHR 0x27] @ '': '' @ Error err) err)"
    using RunE_mkdir_fails by blast
  then show "dir = output f" and "fst (RunE w f)
          = Some (WrapError (''failed to create output folder '' @ [CHR 0x27] @ output f
                               @ [CHR 0x27] @ '': '' @ Error err) err)"
    by simp_all
  from r error_names_mkdir [of "output f" err]
  show "\<exists>e. fst (RunE w f) = Some e \<and> error_names e dir" by simp
next
  assume a: "EWriteFile path sigData mode' \<in> set (snd (RunE w f))
        \<and> os_WriteFile w path sigData mode' = Some (PathError op path cause)"
  then show "path = signature_path w f" using RunE_writes by blast
  from a have r: "fst (RunE w f)
          = Some (WrapError (''failed to write signature to '' @ output f @ '': ''
                               @ Error (PathError op path cause)) (PathError op path cause))"
    using RunE_write_fails by blast
  then show "fst (RunE w f)
          = Some (WrapError (''failed to write signature to '' @ output f @ '': ''
                               @ op @ '' '' @ path @ '': '' @ Error cause)
                    (PathError op path cause))"
    by (simp add: PathError_def)
  from r error_names_write [of "output f" op path cause]
  show "\<exists>e. fst (RunE w f) = Some e \<and> error_names e path" by simp
qed

theorem write_failure_names_attempted_path_witness:
  "EWriteFile ''100.200.300.personalized.signature'' [170, 187] mode_0644
     \<in> set (snd (RunE world_write_denied flags_manifest))
   \<and> os_WriteFile world_write_denied ''100.200.300.personalized.signature'' [170, 187] mode_0644
       = Some (PathError ''open'' ''100.200.300.personalized.signature'' EACCES)
   \<and> fst (RunE world_write_denied flags_manifest)
       = Some (WrapError
           ''failed to write signature to : open 100.200.300.personalized.signature: permission denied''
           (PathError ''open'' ''100.200.300.personalized.signature'' EACCES))
   \<and> error_names
        (WrapError
           ''failed to write signature to : open 100.200.300.personalized.signature: permission denied''
           (PathError ''open'' ''100.200.300.personalized.signature'' EACCES))
        ''100.200.300.personalized.signature''
   \<and> EMkdirAll ''out'' mode_0750 \<in> set (snd (RunE world_mkdir_denied flags_manifest_out))
   \<and> os_MkdirAll world_mkdir_denied ''out'' mode_0750 = Some (PathError ''mkdir'' ''out'' EACCES)
   \<and> fst (RunE world_mkdir_denied flags_manifest_out)
       = Some (WrapError ''failed to create output folder 'out': mkdir out: permission denied''
                 (PathError ''mkdir'' ''out'' EACCES))
   \<and> error_names
        (WrapError ''failed to create output folder 'out': mkdir out: permission denied''
                 (PathError ''mkdir'' ''out'' EACCES))
        ''out''"
proof -
  let ?p = "''100.200.300.personalized.signature''"
  have w1: "EWriteFile ?p [170, 187] mode_0644 \<in> set (snd (RunE world_write_denied flags_manifest))"
    by (simp add: world_write_denied_def flags_manifest_def run_defs example_defs)
  have w2: "os_WriteFile world_write_denied ?p [170, 187] mode_0644
       = Some (PathError ''open'' ?p EACCES)"
    by (simp add: world_write_denied_def example_world_def)
  have m1: "EMkdirAll ''out'' mode_0750 \<in> set (snd (RunE world_mkdir_denied flags_manifest_out))"
    by (simp add: world_mkdir_denied_def flags_manifest_out_def flags_manifest_def run_defs
          example_defs)
  have m2: "os_MkdirAll world_mkdir_denied ''out'' mode_0750 = Some (PathError ''mkdir'' ''out'' EACCES)"
    by (simp add: world_mkdir_denied_def example_world_def)
  have o: "output flags_manifest = ''''" "output flags_manifest_out = ''out''"
    "Error EACCES = ''permission denied''"
    "Error (PathError ''mkdir'' ''out'' EACCES) = ''mkdir out: permission denied''"
    by (simp_all add: flags_manifest_def flags_manifest_out_def EACCES_def PathError_def)
  note W = write_failure_names_attempted_path
             [where w = world_write_denied and f = flags_manifest and path = ?p
                and sigData = "[170, 187]" and mode' = mode_0644 and op = "''open''"
                and cause = EACCES]
  from W w1 w2 have wr: "fst (RunE world_write_denied flags_manifest)
          = Some (WrapError (''failed to write signature to '' @ output flags_manifest @ '': ''
                               @ ''open'' @ '' '' @ ?p @ '': '' @ Error EACCES)
                    (PathError ''open'' ?p EACCES))"
    and wn: "\<exists>e. fst (RunE world_write_denied flags_manifest) = Some e \<and> error_names e ?p"
    by blast+
  from wr have wr': "fst (RunE world_write_denied flags_manifest)
       = Some (WrapError
           ''failed to write signature to : open 100.200.300.personalized.signature: permission denied''
           (PathError ''open'' ?p EACCES))"
    by (simp add: o)
  from wn wr' have wn': "error_names
        (WrapError
           ''failed to write signature to : open 100.200.300.personalized.signature: permission denied''
           (PathError ''open'' ?p EACCES)) ?p"
    by simp
  note M = write_failure_names_attempted_path
             [where w = world_mkdir_denied and f = flags_manifest_out and dir = "''out''"
                and mode = mode_0750 and err = "PathError ''mkdir'' ''out'' EACCES"]
  from M m1 m2 have mr: "fst (RunE world_mkdir_denied flags_manifest_out)
          = Some (WrapError (''failed to create output folder '' @ [CHR 0x27]
                               @ output flags_manifest_out
                               @ [CHR 0x27] @ '': '' @ Error (PathError ''mkdir'' ''out'' EACCES))
                    (PathError ''mkdir'' ''out'' EACCES))"
    and mn: "\<exists>e. fst (RunE world_mkdir_denied flags_manifest_out) = Some e \<and> error_names e ''out''"
    by blast+
  from mr have mr': "fst (RunE world_mkdir_denied flags_manifest_out)
       = Some (WrapError ''failed to create output folder 'out': mkdir out: permission denied''
                 (PathError ''mkdir'' ''out'' EACCES))"
    by (simp add: o)
  from mn mr' have mn': "error_names
        (WrapError ''failed to create output folder 'out': mkdir out: permission denied''
                 (PathError ''mkdir'' ''out'' EACCES)) ''out''"
    by simp
  from w1 w2 wr' wn' m1 m2 mr' mn' show ?thesis by blast
qed

end
